theory Spec2Isabelle
  imports Complex_Main "HOL-Library.AList"
begin

section \<open>PromptPilot: run simulator, analytics aggregator and the record store's schema\<close>

text \<open>
  The development embeds three pieces of the repository:
  \<^item> the page \<^verbatim>\<open>Run\<close> (\<^verbatim>\<open>MODELS\<close>, \<^verbatim>\<open>handleRun\<close>), which fabricates a token count, a
    delay and a cost and inserts one row into the table \<^verbatim>\<open>runs\<close>;
  \<^item> the page \<^verbatim>\<open>Analytics\<close> (\<^verbatim>\<open>loadAnalytics\<close>), which folds the fetched rows into
    summary statistics;
  \<^item> the migration that declares the tables, their foreign keys and their row-level
    security policies.

  A JavaScript number is modelled as an exact rational: the model computes what the
  arithmetic of the source denotes, not its rounding to IEEE doubles. Identifiers
  (UUIDs) and every other text are strings. A nullable column is an \<open>option\<close>.
\<close>

type_synonym uuid = string
type_synonym number = rat

subsection \<open>The tables of the migration\<close>

text \<open>
  One record per table, one field per column, in the order of the migration. The columns
  named \<^verbatim>\<open>id\<close>, \<^verbatim>\<open>user_id\<close>, \<^verbatim>\<open>model\<close> and \<^verbatim>\<open>created_at\<close> occur in several tables; the
  fields of \<^verbatim>\<open>runs\<close> keep the column names (with \<^verbatim>\<open>id\<close> written \<open>run_id\<close>, since
  \<open>id\<close> is the identity function of HOL), the fields of the other tables carry the
  table's name as a prefix.
  Timestamps are milliseconds since the epoch.

  A row of \<^verbatim>\<open>runs\<close> is declared in two steps: \<open>run_insert\<close> holds the eight columns that
  the client sends when it inserts a run, and \<open>run\<close> adds the three columns that only
  the store fills (\<^verbatim>\<open>id\<close>, \<^verbatim>\<open>error_message\<close>, \<^verbatim>\<open>created_at\<close>).
\<close>

record project =
  projects_id :: uuid
  projects_name :: string
  projects_description :: "string option"
  projects_user_id :: uuid
  projects_created_at :: "int option"
  projects_updated_at :: "int option"

record prompt =
  prompts_id :: uuid
  prompts_title :: string
  prompts_content :: string
  prompts_project_id :: "uuid option"
  prompts_model :: string
  prompts_temperature :: "number option"
  prompts_max_tokens :: "int option"
  prompts_version :: "int option"
  prompts_tags :: "string list option"
  prompts_user_id :: uuid
  prompts_created_at :: "int option"
  prompts_updated_at :: "int option"

record run_insert =
  prompt_id :: "uuid option"
  model :: string
  response :: "string option"
  tokens_used :: "int option"
  latency_ms :: "int option"
  cost_usd :: "number option"
  status :: "string option"
  user_id :: uuid

record run = run_insert +
  run_id :: uuid
  error_message :: "string option"
  created_at :: "int option"

record profile =
  profiles_id :: uuid
  profiles_email :: "string option"
  profiles_full_name :: "string option"
  profiles_avatar_url :: "string option"
  profiles_plan :: "string option"
  profiles_created_at :: "int option"

record db =
  public_projects :: "project list"
  public_prompts :: "prompt list"
  public_runs :: "run list"
  public_profiles :: "profile list"

subsection \<open>Row-level security and foreign keys, as the migration declares them\<close>

datatype table_name = Projects | Prompts | Runs | Profiles

datatype command = SELECT | INSERT | UPDATE | DELETE

text \<open>The three expressions that the policies of the migration use.\<close>

datatype policy_expr =
    auth_uid_eq_user_id  \<comment> \<open>\<^verbatim>\<open>auth.uid() = user_id\<close>\<close>
  | auth_uid_eq_id       \<comment> \<open>\<^verbatim>\<open>auth.uid() = id\<close>\<close>
  | const_true           \<comment> \<open>\<^verbatim>\<open>true\<close>\<close>

text \<open>
  \<^verbatim>\<open>CREATE POLICY ... ON public.t FOR c USING (e)\<close> (or \<^verbatim>\<open>WITH CHECK (e)\<close> for an
  insert), one equation per statement of the migration. Row-level security is enabled on
  all four tables, so a command with no policy (\<open>None\<close>) is denied for every row.
\<close>

fun policy :: "table_name \<Rightarrow> command \<Rightarrow> policy_expr option" where
  "policy Projects SELECT = Some auth_uid_eq_user_id"
| "policy Projects INSERT = Some auth_uid_eq_user_id"
| "policy Projects UPDATE = Some auth_uid_eq_user_id"
| "policy Projects DELETE = Some auth_uid_eq_user_id"
| "policy Prompts SELECT = Some auth_uid_eq_user_id"
| "policy Prompts INSERT = Some auth_uid_eq_user_id"
| "policy Prompts UPDATE = Some auth_uid_eq_user_id"
| "policy Prompts DELETE = Some auth_uid_eq_user_id"
| "policy Runs SELECT = Some auth_uid_eq_user_id"
| "policy Runs INSERT = Some auth_uid_eq_user_id"
| "policy Runs UPDATE = None"
| "policy Runs DELETE = None"
| "policy Profiles SELECT = Some const_true"
| "policy Profiles UPDATE = Some auth_uid_eq_id"
| "policy Profiles INSERT = Some auth_uid_eq_id"
| "policy Profiles DELETE = None"

text \<open>
  The value of a policy expression for the principal \<open>auth_uid\<close> (\<open>None\<close> when nobody is
  signed in: \<^verbatim>\<open>auth.uid()\<close> is then \<^verbatim>\<open>NULL\<close>, and a comparison with \<^verbatim>\<open>NULL\<close> is not true)
  on a row whose column \<^verbatim>\<open>id\<close> is \<open>row_id\<close> and whose column \<^verbatim>\<open>user_id\<close>, when the table
  has one, is \<open>row_user_id\<close>.
\<close>

fun eval_policy :: "policy_expr \<Rightarrow> uuid option \<Rightarrow> uuid \<Rightarrow> uuid option \<Rightarrow> bool" where
  "eval_policy auth_uid_eq_user_id auth_uid row_id row_user_id =
     (case auth_uid of None \<Rightarrow> False | Some u \<Rightarrow> row_user_id = Some u)"
| "eval_policy auth_uid_eq_id auth_uid row_id row_user_id =
     (case auth_uid of None \<Rightarrow> False | Some u \<Rightarrow> row_id = u)"
| "eval_policy const_true auth_uid row_id row_user_id = True"

definition permitted :: "table_name \<Rightarrow> command \<Rightarrow> uuid option \<Rightarrow> uuid \<Rightarrow> uuid option \<Rightarrow> bool" where
  "permitted t c auth_uid row_id row_user_id =
     (case policy t c of
        None \<Rightarrow> False
      | Some e \<Rightarrow> eval_policy e auth_uid row_id row_user_id)"

text \<open>\<^verbatim>\<open>select('*')\<close> on each table: the rows that the table's SELECT policy lets through.\<close>

definition select_projects :: "uuid option \<Rightarrow> db \<Rightarrow> project list" where
  "select_projects auth_uid d =
     filter (\<lambda>r. permitted Projects SELECT auth_uid (projects_id r) (Some (projects_user_id r)))
       (public_projects d)"

definition select_prompts :: "uuid option \<Rightarrow> db \<Rightarrow> prompt list" where
  "select_prompts auth_uid d =
     filter (\<lambda>r. permitted Prompts SELECT auth_uid (prompts_id r) (Some (prompts_user_id r)))
       (public_prompts d)"

definition select_runs :: "uuid option \<Rightarrow> db \<Rightarrow> run list" where
  "select_runs auth_uid d =
     filter (\<lambda>r. permitted Runs SELECT auth_uid (run_id r) (Some (user_id r))) (public_runs d)"

definition select_profiles :: "uuid option \<Rightarrow> db \<Rightarrow> profile list" where
  "select_profiles auth_uid d =
     filter (\<lambda>r. permitted Profiles SELECT auth_uid (profiles_id r) None) (public_profiles d)"

text \<open>
  The action of a foreign key when the row it references is deleted, and the action the
  migration declares for \<^verbatim>\<open>runs.prompt_id\<close>:
  \<^verbatim>\<open>prompt_id UUID REFERENCES public.prompts(id) ON DELETE CASCADE\<close>.
\<close>

datatype referential_action = NO_ACTION | CASCADE | SET_NULL

definition runs_prompt_id_on_delete :: referential_action where
  "runs_prompt_id_on_delete = CASCADE"

datatype store_error =
    row_level_security_violation
  | foreign_key_violation
  | unique_violation
  | numeric_value_out_of_range
  | transport_failure

text \<open>
  The column types of \<^verbatim>\<open>runs\<close> that change or refuse a number. \<^verbatim>\<open>cost_usd DECIMAL(10, 6)\<close>
  keeps six digits after the point, rounding a tie away from zero, and refuses a value
  that then needs more than four digits before the point. \<^verbatim>\<open>tokens_used INTEGER\<close> and
  \<^verbatim>\<open>latency_ms INTEGER\<close> hold 32-bit signed integers.
\<close>

definition numeric_10_6 :: "number \<Rightarrow> number option" where
  "numeric_10_6 x =
     (let k = (if 0 \<le> x then \<lfloor>x * 1000000 + 1 / 2\<rfloor> else - \<lfloor>- x * 1000000 + 1 / 2\<rfloor>)
      in if \<bar>k\<bar> < 10000000000 then Some (of_int k / 1000000) else None)"

definition fits_integer :: "int \<Rightarrow> bool" where
  "fits_integer i = (- 2147483648 \<le> i \<and> i \<le> 2147483647)"

text \<open>The row as the columns of \<^verbatim>\<open>runs\<close> hold it, or \<open>None\<close> when a number does not fit.\<close>

definition coerce_run :: "run_insert \<Rightarrow> run_insert option" where
  "coerce_run row =
     (if (case tokens_used row of None \<Rightarrow> False | Some i \<Rightarrow> \<not> fits_integer i) then None
      else if (case latency_ms row of None \<Rightarrow> False | Some i \<Rightarrow> \<not> fits_integer i) then None
      else (case cost_usd row of
              None \<Rightarrow> Some row
            | Some c \<Rightarrow>
                (case numeric_10_6 c of
                   None \<Rightarrow> None
                 | Some c' \<Rightarrow> Some (row\<lparr>cost_usd := Some c'\<rparr>))))"

text \<open>
  What the store decides by itself when it inserts a row: the fresh identifier
  (\<^verbatim>\<open>gen_random_uuid()\<close>), the time (\<^verbatim>\<open>now()\<close>), and whether the request reaches it at all.
\<close>

record store_env =
  gen_random_uuid :: uuid
  now :: int
  unreachable :: bool

text \<open>
  \<^verbatim>\<open>from('runs').insert(row)\<close>. The request can fail to reach the store; the numbers of
  the row are brought to the types of their columns; the INSERT policy of \<^verbatim>\<open>runs\<close> is
  checked on the new row; the primary key must be fresh; a non-null \<^verbatim>\<open>prompt_id\<close> must
  reference a row of \<^verbatim>\<open>prompts\<close> (foreign keys are checked on the whole table, not through
  the policies). The columns the client does not send take their defaults: \<^verbatim>\<open>id\<close>,
  \<^verbatim>\<open>created_at\<close>, and \<^verbatim>\<open>NULL\<close> for \<^verbatim>\<open>error_message\<close>. The single insert either appends
  the row or leaves the store as it was.
\<close>

definition insert_run :: "store_env \<Rightarrow> uuid option \<Rightarrow> run_insert \<Rightarrow> db \<Rightarrow> store_error + db" where
  "insert_run e auth_uid row d =
     (if unreachable e then Inl transport_failure
      else case coerce_run row of
        None \<Rightarrow> Inl numeric_value_out_of_range
      | Some stored \<Rightarrow>
          if \<not> permitted Runs INSERT auth_uid (gen_random_uuid e) (Some (user_id stored))
            then Inl row_level_security_violation
          else if gen_random_uuid e \<in> set (map run_id (public_runs d))
            then Inl unique_violation
          else if (case prompt_id stored of
                     None \<Rightarrow> False
                   | Some p \<Rightarrow> p \<notin> set (map prompts_id (public_prompts d)))
            then Inl foreign_key_violation
          else Inr (d\<lparr>public_runs := public_runs d @
                      [run_insert.extend stored
                         (run.fields (gen_random_uuid e) None (Some (now e)))]\<rparr>))"

text \<open>
  \<^verbatim>\<open>from('prompts').delete().eq('id', id)\<close>, the request of \<^verbatim>\<open>handleDeletePrompt\<close>. The rows
  deleted are those with that \<^verbatim>\<open>id\<close> that the DELETE policy of \<^verbatim>\<open>prompts\<close> lets the
  principal delete. The foreign key of \<^verbatim>\<open>runs\<close> then acts on every run that references a
  deleted prompt, whoever owns the run and whatever the policies of \<^verbatim>\<open>runs\<close> say:
  referential actions are not subject to row-level security.
\<close>

definition delete_prompt :: "uuid option \<Rightarrow> uuid \<Rightarrow> db \<Rightarrow> store_error + db" where
  "delete_prompt auth_uid pid d =
     (let matches = (\<lambda>p. prompts_id p = pid \<and>
                       permitted Prompts DELETE auth_uid (prompts_id p) (Some (prompts_user_id p)));
          deleted = filter matches (public_prompts d);
          kept = filter (\<lambda>p. \<not> matches p) (public_prompts d);
          referencing = (\<lambda>r. case prompt_id r of
                                None \<Rightarrow> False
                              | Some q \<Rightarrow> q \<in> set (map prompts_id deleted))
      in case runs_prompt_id_on_delete of
           NO_ACTION \<Rightarrow>
             (if list_ex referencing (public_runs d) then Inl foreign_key_violation
              else Inr (d\<lparr>public_prompts := kept\<rparr>))
         | CASCADE \<Rightarrow>
             Inr (d\<lparr>public_prompts := kept,
                    public_runs := filter (\<lambda>r. \<not> referencing r) (public_runs d)\<rparr>)
         | SET_NULL \<Rightarrow>
             Inr (d\<lparr>public_prompts := kept,
                    public_runs := map (\<lambda>r. if referencing r then r\<lparr>prompt_id := None\<rparr> else r)
                                     (public_runs d)\<rparr>))"

subsection \<open>The page Run: the model table and the fabricated numbers\<close>

record model_option =
  "value" :: string
  label :: string
  cost :: number

definition MODELS :: "model_option list" where
  "MODELS =
    [\<lparr>value = ''gpt-4'', label = ''GPT-4'', cost = 3 / 100\<rparr>,
     \<lparr>value = ''gpt-3.5-turbo'', label = ''GPT-3.5 Turbo'', cost = 2 / 1000\<rparr>,
     \<lparr>value = ''claude-3-opus'', label = ''Claude 3 Opus'', cost = 15 / 1000\<rparr>,
     \<lparr>value = ''claude-3-sonnet'', label = ''Claude 3 Sonnet'', cost = 3 / 1000\<rparr>,
     \<lparr>value = ''gemini-pro'', label = ''Gemini Pro'', cost = 25 / 100000\<rparr>]"

text \<open>
  \<^verbatim>\<open>MODELS.find(m => m.value === selectedModel)?.cost || 0\<close>: the cost of the first entry
  with that value; \<^verbatim>\<open>undefined\<close> (no entry) and a cost of \<open>0\<close> are both falsy and give \<open>0\<close>.
\<close>

definition modelCost :: "string \<Rightarrow> number" where
  "modelCost selected =
     (case find (\<lambda>m. value m = selected) MODELS of
        None \<Rightarrow> 0
      | Some m \<Rightarrow> (if cost m = 0 then 0 else cost m))"

text \<open>\<^verbatim>\<open>const cost = (tokens / 1000) * modelCost\<close>\<close>

definition run_cost :: "int \<Rightarrow> string \<Rightarrow> number" where
  "run_cost tokens selected = (of_int tokens / 1000) * modelCost selected"

text \<open>
  \<^verbatim>\<open>Math.random()\<close> is a parameter \<open>r\<close> of the model, a number with \<open>0 \<le> r < 1\<close>.
  \<^verbatim>\<open>Math.floor(100 + Math.random() * 400)\<close> and the argument of \<^verbatim>\<open>setTimeout\<close>,
  \<^verbatim>\<open>2000 + Math.random() * 2000\<close>. The second is at least 2000 whatever the arithmetic; in
  doubles the sum is rounded and reaches 4000 at the largest value of \<open>r\<close>, so nothing
  below relies on it staying under 4000.
\<close>

definition run_tokens :: "number \<Rightarrow> int" where
  "run_tokens r = \<lfloor>100 + r * 400\<rfloor>"

definition run_delay :: "number \<Rightarrow> number" where
  "run_delay r = 2000 + r * 2000"

text \<open>
  The response text:
  \<^verbatim>\<open>`This is a simulated response from ${selectedModel}. In a real ...`\<close>
\<close>

definition run_response :: "string \<Rightarrow> string" where
  "run_response selected =
     ''This is a simulated response from '' @ selected @
     ''. In a real implementation, this would call the actual LLM API.''"

subsection \<open>The page Run: \<^verbatim>\<open>handleRun\<close>\<close>

text \<open>
  The signed-in user as \<^verbatim>\<open>useAuth()\<close> gives it (\<open>None\<close> for \<^verbatim>\<open>null\<close>); the requests of the
  page reach the store with this user's identifier as \<^verbatim>\<open>auth.uid()\<close>.
\<close>

record auth_user =
  auth_id :: uuid
  auth_email :: "string option"

record run_result =
  result_response :: string
  result_latency :: int
  result_tokens :: int
  result_cost :: number

text \<open>The state of the component: one field per \<^verbatim>\<open>useState\<close>.\<close>

record run_page =
  prompts :: "prompt list"
  selectedPrompt :: string
  selectedModel :: string
  running :: bool
  result :: "run_result option"

datatype toast = toast_error string | toast_success string

text \<open>
  What \<^verbatim>\<open>handleRun\<close> reads from outside: the two values of \<^verbatim>\<open>Math.random()\<close> (the first
  for the timer, the second for the tokens), the reading of \<^verbatim>\<open>Date.now()\<close> before the
  timer, the runtime's timer, and the store's own choices. The timer is the function
  \<open>resumed_at\<close>: given the delay passed to \<^verbatim>\<open>setTimeout\<close>, the reading of \<^verbatim>\<open>Date.now()\<close> when
  the awaiting function runs again.
\<close>

record run_env =
  random_delay :: number
  random_tokens :: number
  startTime :: int
  resumed_at :: "number \<Rightarrow> int"
  store :: store_env

text \<open>
  What one call leaves behind: the state of the component, the store, the notifications
  shown, and the insert requests sent to the store (the only store call of \<^verbatim>\<open>handleRun\<close>).
\<close>

record run_outcome =
  page :: run_page
  database :: db
  toasts :: "toast list"
  requests :: "run_insert list"

text \<open>
  \<^verbatim>\<open>handleRun\<close>. The guard, \<^verbatim>\<open>!selectedPrompt || !user\<close> (the empty string is falsy),
  returns before anything is set. Inside \<^verbatim>\<open>try\<close>, a prompt that
  is not found and an error of the insert are thrown to the same \<^verbatim>\<open>catch\<close>, which shows
  the error toast; \<^verbatim>\<open>finally\<close> resets \<^verbatim>\<open>running\<close> on both paths.
\<close>

definition handleRun :: "run_env \<Rightarrow> auth_user option \<Rightarrow> run_page \<Rightarrow> db \<Rightarrow> run_outcome" where
  "handleRun env user st d =
     (if selectedPrompt st = [] then
        \<lparr>page = st, database = d, toasts = [toast_error ''Please select a prompt''],
         requests = []\<rparr>
      else case user of
        None \<Rightarrow>
          \<lparr>page = st, database = d, toasts = [toast_error ''Please select a prompt''],
           requests = []\<rparr>
      | Some u \<Rightarrow>
        let st1 = st\<lparr>running := True, result := None\<rparr>
        in (case find (\<lambda>p. prompts_id p = selectedPrompt st) (prompts st) of
              None \<Rightarrow>
                \<lparr>page = st1\<lparr>running := False\<rparr>, database = d,
                 toasts = [toast_error ''Failed to run prompt''], requests = []\<rparr>
            | Some prompt \<Rightarrow>
                let latency = resumed_at env (run_delay (random_delay env)) - startTime env;
                    tokens = run_tokens (random_tokens env);
                    cost = run_cost tokens (selectedModel st);
                    response = run_response (selectedModel st);
                    row = \<lparr>prompt_id = Some (prompts_id prompt),
                           model = selectedModel st,
                           response = Some response,
                           tokens_used = Some tokens,
                           latency_ms = Some latency,
                           cost_usd = Some cost,
                           status = Some ''completed'',
                           user_id = auth_id u\<rparr>
                in (case insert_run (store env) (Some (auth_id u)) row d of
                      Inl error \<Rightarrow>
                        \<lparr>page = st1\<lparr>running := False\<rparr>, database = d,
                         toasts = [toast_error ''Failed to run prompt''], requests = [row]\<rparr>
                    | Inr d' \<Rightarrow>
                        \<lparr>page = st1\<lparr>result := Some \<lparr>result_response = response,
                                                    result_latency = latency,
                                                    result_tokens = tokens,
                                                    result_cost = cost\<rparr>,
                                    running := False\<rparr>,
                         database = d',
                         toasts = [toast_success ''Prompt executed successfully''],
                         requests = [row]\<rparr>)))"

text \<open>A call has succeeded when it ends with the success notification.\<close>

definition succeeded :: "run_outcome \<Rightarrow> bool" where
  "succeeded out = (toasts out = [toast_success ''Prompt executed successfully''])"

text \<open>The elapsed time that \<^verbatim>\<open>handleRun\<close> computes: \<^verbatim>\<open>Date.now() - startTime\<close>.\<close>

definition run_latency :: "run_env \<Rightarrow> int" where
  "run_latency env = resumed_at env (run_delay (random_delay env)) - startTime env"

text \<open>The row that \<^verbatim>\<open>handleRun\<close> sends for the prompt \<open>p\<close> it has found.\<close>

definition run_row :: "run_env \<Rightarrow> auth_user \<Rightarrow> run_page \<Rightarrow> prompt \<Rightarrow> run_insert" where
  "run_row env u st p =
     \<lparr>prompt_id = Some (prompts_id p), model = selectedModel st,
      response = Some (run_response (selectedModel st)),
      tokens_used = Some (run_tokens (random_tokens env)),
      latency_ms = Some (run_latency env),
      cost_usd = Some (run_cost (run_tokens (random_tokens env)) (selectedModel st)),
      status = Some ''completed'', user_id = auth_id u\<rparr>"

text \<open>
  The timer of \<^verbatim>\<open>handleRun\<close> is asked for \<open>run_delay (random_delay env)\<close> milliseconds. The
  runtime, not the code, decides when the function runs again: a timer fires no earlier
  than asked and as much later as the event loop makes it. An environment in which both
  random values are in \<open>[0, 1)\<close> and the timer of the run does not fire early:
\<close>

definition timer_respected :: "run_env \<Rightarrow> bool" where
  "timer_respected env =
     (0 \<le> random_delay env \<and> random_delay env < 1 \<and>
      0 \<le> random_tokens env \<and> random_tokens env < 1 \<and>
      run_delay (random_delay env) \<le> of_int (run_latency env))"

subsection \<open>The page Analytics: JavaScript values and objects\<close>

text \<open>
  The counts of \<^verbatim>\<open>loadAnalytics\<close> live in a plain object, \<^verbatim>\<open>{}\<close>, used as a dictionary
  from model identifier to number. Reading a property of such an object that it does not
  own falls through to \<^verbatim>\<open>Object.prototype\<close>, so the values that the reducer handles are
  not only numbers. A value is \<^verbatim>\<open>undefined\<close>, a finite number, \<^verbatim>\<open>NaN\<close>, one of the two
  infinities, a string, or one of the functions and objects found on the prototype, which
  is represented by the text that its conversion to a string gives.
\<close>

datatype js_value =
  Undefined | Num number | NaN | Infinity | MinusInfinity | Str string | Obj string

text \<open>
  The properties that every plain object inherits, each with the text of its value: the
  methods of \<^verbatim>\<open>Object.prototype\<close> are native functions, and the accessor \<^verbatim>\<open>__proto__\<close>
  yields \<^verbatim>\<open>Object.prototype\<close> itself.
\<close>

definition Object_prototype :: "(string \<times> string) list" where
  "Object_prototype =
    [(''constructor'', ''function Object() { [native code] }''),
     (''__defineGetter__'', ''function __defineGetter__() { [native code] }''),
     (''__defineSetter__'', ''function __defineSetter__() { [native code] }''),
     (''hasOwnProperty'', ''function hasOwnProperty() { [native code] }''),
     (''__lookupGetter__'', ''function __lookupGetter__() { [native code] }''),
     (''__lookupSetter__'', ''function __lookupSetter__() { [native code] }''),
     (''isPrototypeOf'', ''function isPrototypeOf() { [native code] }''),
     (''propertyIsEnumerable'', ''function propertyIsEnumerable() { [native code] }''),
     (''toString'', ''function toString() { [native code] }''),
     (''valueOf'', ''function valueOf() { [native code] }''),
     (''__proto__'', ''[object Object]''),
     (''toLocaleString'', ''function toLocaleString() { [native code] }'')]"

text \<open>An object is the list of its own properties, in the order of their creation.\<close>

type_synonym js_object = "(string \<times> js_value) list"

text \<open>\<^verbatim>\<open>acc[k]\<close>: the own property, else the inherited one, else \<^verbatim>\<open>undefined\<close>.\<close>

definition get_property :: "js_object \<Rightarrow> string \<Rightarrow> js_value" where
  "get_property acc k =
     (case map_of acc k of
        Some v \<Rightarrow> v
      | None \<Rightarrow> (case map_of Object_prototype k of
                   Some text \<Rightarrow> Obj text
                 | None \<Rightarrow> Undefined))"

text \<open>
  \<^verbatim>\<open>acc[k] = v\<close> for a number or a string \<open>v\<close>, the only values the reducer assigns. The
  key \<^verbatim>\<open>__proto__\<close> is the inherited accessor: its setter ignores a value that is neither
  an object nor \<^verbatim>\<open>null\<close>, and no own property is created. Any other key becomes, or
  stays, an own property.
\<close>

definition set_property :: "js_object \<Rightarrow> string \<Rightarrow> js_value \<Rightarrow> js_object" where
  "set_property acc k v = (if k = ''__proto__'' then acc else AList.update k v acc)"

fun truthy :: "js_value \<Rightarrow> bool" where
  "truthy Undefined = False"
| "truthy (Num n) = (n \<noteq> 0)"
| "truthy NaN = False"
| "truthy Infinity = True"
| "truthy MinusInfinity = True"
| "truthy (Str s) = (s \<noteq> [])"
| "truthy (Obj text) = True"

text \<open>\<^verbatim>\<open>v || 0\<close>\<close>

definition or_0 :: "js_value \<Rightarrow> js_value" where
  "or_0 v = (if truthy v then v else Num 0)"

text \<open>
  \<^verbatim>\<open>v + 1\<close>: addition on numbers; a string, and a function or object (converted to its
  text first), are concatenated with \<^verbatim>\<open>"1"\<close>.
\<close>

fun plus_1 :: "js_value \<Rightarrow> js_value" where
  "plus_1 (Num n) = Num (n + 1)"
| "plus_1 (Str s) = Str (s @ ''1'')"
| "plus_1 (Obj text) = Str (text @ ''1'')"
| "plus_1 Undefined = NaN"
| "plus_1 NaN = NaN"
| "plus_1 Infinity = Infinity"
| "plus_1 MinusInfinity = MinusInfinity"

text \<open>
  \<^verbatim>\<open>a / b\<close> on two finite numbers. A division never raises: zero by zero is \<^verbatim>\<open>NaN\<close>, and
  any other number by zero is an infinity.
\<close>

definition js_divide :: "number \<Rightarrow> number \<Rightarrow> js_value" where
  "js_divide a b =
     (if b = 0 then (if a = 0 then NaN else if 0 < a then Infinity else MinusInfinity)
      else Num (a / b))"

text \<open>\<^verbatim>\<open>v * 100\<close> on a number, finite or not.\<close>

fun times_100 :: "js_value \<Rightarrow> js_value" where
  "times_100 (Num x) = Num (x * 100)"
| "times_100 Infinity = Infinity"
| "times_100 MinusInfinity = MinusInfinity"
| "times_100 v = NaN"

text \<open>
  \<^verbatim>\<open>(count / n) * 100\<close> for the number of rows \<open>n\<close>. A count that is not a number is
  converted to one first; the strings that reach this point are built by \<open>plus_1\<close> from the
  text of a function or object, none of which reads as a number, so the conversion gives
  \<^verbatim>\<open>NaN\<close>.
\<close>

fun percent_of :: "js_value \<Rightarrow> nat \<Rightarrow> js_value" where
  "percent_of (Num c) n = times_100 (js_divide c (of_nat n))"
| "percent_of Infinity n = Infinity"
| "percent_of MinusInfinity n = MinusInfinity"
| "percent_of v n = NaN"

text \<open>
  \<^verbatim>\<open>Object.entries\<close> lists the own properties whose key is an array index (the canonical
  decimal form of an integer from \<open>0\<close> to \<open>2\<^sup>3\<^sup>2 - 2\<close>) first, in ascending numeric order,
  and then the other keys in the order of their creation.
\<close>

definition is_digit :: "char \<Rightarrow> bool" where
  "is_digit c = (48 \<le> (of_char c :: int) \<and> (of_char c :: int) \<le> 57)"

fun int_of_digits :: "int \<Rightarrow> string \<Rightarrow> int" where
  "int_of_digits n [] = n"
| "int_of_digits n (c # cs) = int_of_digits (10 * n + (of_char c - 48)) cs"

definition is_array_index :: "string \<Rightarrow> bool" where
  "is_array_index k =
     (k \<noteq> [] \<and> list_all is_digit k \<and> (k = ''0'' \<or> hd k \<noteq> CHR ''0'') \<and>
      int_of_digits 0 k < 2 ^ 32 - 1)"

definition Object_entries :: "js_object \<Rightarrow> (string \<times> js_value) list" where
  "Object_entries acc =
     sort_key (\<lambda>kv. int_of_digits 0 (fst kv)) (filter (\<lambda>kv. is_array_index (fst kv)) acc) @
     filter (\<lambda>kv. \<not> is_array_index (fst kv)) acc"

subsection \<open>The page Analytics: \<^verbatim>\<open>loadAnalytics\<close>\<close>

text \<open>\<^verbatim>\<open>run.cost_usd || 0\<close> and \<^verbatim>\<open>run.latency_ms || 0\<close> on a nullable numeric column.\<close>

definition column_or_0 :: "'a::zero option \<Rightarrow> 'a" where
  "column_or_0 c = (case c of None \<Rightarrow> 0 | Some x \<Rightarrow> if x = 0 then 0 else x)"

text \<open>
  \<^verbatim>\<open>Math.round\<close>: of a finite number the closest integer, and of two equally close ones
  the larger; \<^verbatim>\<open>NaN\<close> and the infinities are returned as they are.
\<close>

fun Math_round :: "js_value \<Rightarrow> js_value" where
  "Math_round (Num x) = Num (of_int \<lfloor>x + 1 / 2\<rfloor>)"
| "Math_round Infinity = Infinity"
| "Math_round MinusInfinity = MinusInfinity"
| "Math_round v = NaN"

text \<open>The four constants computed under \<^verbatim>\<open>// Calculate stats\<close> and \<^verbatim>\<open>// Model breakdown\<close>.\<close>

definition totalCost_of :: "run list \<Rightarrow> number" where
  "totalCost_of runs = fold (\<lambda>run sum. sum + column_or_0 (cost_usd run)) runs 0"

definition avgLatency_of :: "run list \<Rightarrow> js_value" where
  "avgLatency_of runs =
     js_divide (of_int (fold (\<lambda>run sum. sum + column_or_0 (latency_ms run)) runs 0))
       (of_nat (length runs))"

definition successRate_of :: "run list \<Rightarrow> js_value" where
  "successRate_of runs =
     times_100
       (js_divide (of_nat (length (filter (\<lambda>r. status r = Some ''completed'') runs)))
          (of_nat (length runs)))"

definition modelCounts :: "run list \<Rightarrow> js_object" where
  "modelCounts runs =
     fold (\<lambda>run acc. set_property acc (model run) (plus_1 (or_0 (get_property acc (model run)))))
       runs []"

record item =
  item_model :: string
  item_count :: js_value
  item_percentage :: js_value

definition modelBreakdown_of :: "run list \<Rightarrow> item list" where
  "modelBreakdown_of runs =
     map (\<lambda>(model, count).
            \<lparr>item_model = model, item_count = count,
             item_percentage = percent_of count (length runs)\<rparr>)
       (Object_entries (modelCounts runs))"

text \<open>
  Rows none of whose model identifiers is the name of a property of \<^verbatim>\<open>Object.prototype\<close>.
\<close>

definition prototype_free :: "run list \<Rightarrow> bool" where
  "prototype_free runs = list_all (\<lambda>r. map_of Object_prototype (model r) = None) runs"

text \<open>One step of the reducer behind \<open>modelCounts\<close>, on the model of the row.\<close>

definition count_step :: "string \<Rightarrow> js_object \<Rightarrow> js_object" where
  "count_step m acc = set_property acc m (plus_1 (or_0 (get_property acc m)))"

text \<open>
  The object \<open>acc\<close> holds the counts of the models \<open>ms\<close>: one own property per model that
  occurs, whose value is the number of its occurrences.
\<close>

definition holds_counts :: "string list \<Rightarrow> js_object \<Rightarrow> bool" where
  "holds_counts ms acc \<longleftrightarrow>
     distinct (map fst acc) \<and>
     (\<forall>k. map_of acc k =
        (if count_list ms k = 0 then None else Some (Num (of_nat (count_list ms k)))))"

record stats =
  totalRuns :: nat
  totalCost :: number
  avgLatency :: js_value
  successRate :: js_value
  modelBreakdown :: "item list"

record analytics_page =
  stats :: stats
  loading :: bool

text \<open>The initial state of the component, as \<^verbatim>\<open>useState\<close> sets it.\<close>

definition initial_page :: analytics_page where
  "initial_page =
     \<lparr>stats = \<lparr>totalRuns = 0, totalCost = 0, avgLatency = Num 0, successRate = Num 0,
               modelBreakdown = []\<rparr>,
      loading = True\<rparr>"

text \<open>The answer of the store to the query: \<^verbatim>\<open>{ data: runs, error }\<close>.\<close>

record runs_response =
  data :: "run list option"
  error :: "store_error option"

text \<open>
  \<^verbatim>\<open>loadAnalytics\<close>. Without a user it returns at once. An error of the query is thrown,
  logged by \<^verbatim>\<open>catch\<close>, and \<^verbatim>\<open>finally\<close> clears \<^verbatim>\<open>loading\<close>. With no row the function returns
  before computing anything and the statistics stay what they were; otherwise they are
  replaced.
\<close>

definition loadAnalytics :: "auth_user option \<Rightarrow> runs_response \<Rightarrow> analytics_page \<Rightarrow> analytics_page" where
  "loadAnalytics user resp st =
     (case user of
        None \<Rightarrow> st
      | Some u \<Rightarrow>
          (case error resp of
             Some e \<Rightarrow> st\<lparr>loading := False\<rparr>
           | None \<Rightarrow>
               (case data resp of
                  None \<Rightarrow> st\<lparr>loading := False\<rparr>
                | Some runs \<Rightarrow>
                    if length runs = 0 then st\<lparr>loading := False\<rparr>
                    else st\<lparr>stats := \<lparr>totalRuns = length runs,
                                       totalCost = totalCost_of runs,
                                       avgLatency = Math_round (avgLatency_of runs),
                                       successRate = Math_round (successRate_of runs),
                                       modelBreakdown = modelBreakdown_of runs\<rparr>,
                            loading := False\<rparr>)))"


subsection \<open>A concrete scenario\<close>

text \<open>
  One user with one prompt and no run yet, the page \<^verbatim>\<open>Run\<close> with that prompt and the model
  \<^verbatim>\<open>gemini-pro\<close> selected, and an environment whose timer lets the function run again 3 ms
  after the first whole millisecond at which the delay has passed: asked for 3999.8 ms, it
  does so 4003 ms after the start, 3.2 ms late.
\<close>

definition example_user :: auth_user where
  "example_user = \<lparr>auth_id = ''u1'', auth_email = Some ''ada@example.org''\<rparr>"

definition example_prompt :: prompt where
  "example_prompt =
     \<lparr>prompts_id = ''p1'', prompts_title = ''Summarise'',
      prompts_content = ''Summarise: {{text}}'', prompts_project_id = None,
      prompts_model = ''gpt-4'', prompts_temperature = Some (7 / 10),
      prompts_max_tokens = Some 1000, prompts_version = Some 1, prompts_tags = None,
      prompts_user_id = ''u1'', prompts_created_at = Some 1700000000000,
      prompts_updated_at = Some 1700000000000\<rparr>"

definition example_db :: db where
  "example_db =
     \<lparr>public_projects = [], public_prompts = [example_prompt], public_runs = [],
      public_profiles = []\<rparr>"

definition example_page :: run_page where
  "example_page =
     \<lparr>prompts = [example_prompt], selectedPrompt = ''p1'', selectedModel = ''gemini-pro'',
      running = False, result = None\<rparr>"

definition example_env :: run_env where
  "example_env =
     \<lparr>random_delay = 9999 / 10000, random_tokens = 3 / 4,
      startTime = 1700000000000, resumed_at = (\<lambda>ms. 1700000000000 + \<lceil>ms\<rceil> + 3),
      store = \<lparr>gen_random_uuid = ''r1'', now = 1700000004010, unreachable = False\<rparr>\<rparr>"

text \<open>
  A store with a second prompt, a second user, and three runs: two of the first prompt (one
  of them owned by the second user) and one of the second prompt; and the profiles of the
  two users.
\<close>

definition example_run :: run where
  "example_run =
     \<lparr>prompt_id = Some ''p1'', model = ''gpt-4'', response = Some ''ok'',
      tokens_used = Some 120, latency_ms = Some 2100, cost_usd = Some (36 / 10000),
      status = Some ''completed'', user_id = ''u1'', run_id = ''r1'', error_message = None,
      created_at = Some 1700000000000\<rparr>"

definition example_store :: db where
  "example_store =
     \<lparr>public_projects = [],
      public_prompts = [example_prompt, example_prompt\<lparr>prompts_id := ''p2''\<rparr>],
      public_runs =
        [example_run,
         example_run\<lparr>prompt_id := Some ''p2'', run_id := ''r2''\<rparr>,
         example_run\<lparr>user_id := ''u2'', run_id := ''r3''\<rparr>],
      public_profiles =
        [\<lparr>profiles_id = ''u1'', profiles_email = Some ''ada@example.org'',
          profiles_full_name = Some ''Ada'', profiles_avatar_url = None,
          profiles_plan = Some ''free'', profiles_created_at = Some 1700000000000\<rparr>,
         \<lparr>profiles_id = ''u2'', profiles_email = Some ''bob@example.org'',
          profiles_full_name = Some ''Bob'', profiles_avatar_url = None,
          profiles_plan = Some ''pro'', profiles_created_at = Some 1700000000000\<rparr>]\<rparr>"

text \<open>
  Three fetched rows: two completed runs of \<^verbatim>\<open>gpt-4\<close> with latencies 100 and 300 and costs
  0.01 and 0.02, and one pending run of \<^verbatim>\<open>claude-3-opus\<close> with latency 200 and cost 0.
\<close>

definition example_rows :: "run list" where
  "example_rows =
     [example_run\<lparr>model := ''gpt-4'', latency_ms := Some 100, cost_usd := Some (1 / 100)\<rparr>,
      example_run\<lparr>model := ''gpt-4'', latency_ms := Some 300, cost_usd := Some (2 / 100)\<rparr>,
      example_run\<lparr>model := ''claude-3-opus'', latency_ms := Some 200, cost_usd := Some 0,
                  status := Some ''pending''\<rparr>]"

subsection \<open>The paths of \<^verbatim>\<open>handleRun\<close>\<close>

lemmas example_defs =
  example_user_def example_prompt_def example_db_def example_page_def example_env_def

lemma find_map_of:
  "map_option g (find (\<lambda>m. f m = k) xs) = map_of (map (\<lambda>m. (f m, g m)) xs) k"
  by (induction xs) auto

lemma find_Some_id:
  "find (\<lambda>p. prompts_id p = k) ps = Some p \<Longrightarrow> prompts_id p = k"
  by (induction ps) (auto split: if_splits)

lemma handleRun_guard:
  assumes "user = None \<or> selectedPrompt st = []"
  shows "handleRun env user st d =
    \<lparr>page = st, database = d, toasts = [toast_error ''Please select a prompt''],
     requests = []\<rparr>"
  using assms by (auto simp: handleRun_def split: option.splits)

lemma handleRun_not_found:
  assumes "user = Some u" and "selectedPrompt st \<noteq> []"
    and "find (\<lambda>p. prompts_id p = selectedPrompt st) (prompts st) = None"
  shows "handleRun env user st d =
    \<lparr>page = st\<lparr>running := False, result := None\<rparr>, database = d,
     toasts = [toast_error ''Failed to run prompt''], requests = []\<rparr>"
  using assms by (simp add: handleRun_def)

lemma handleRun_insert_failed:
  assumes "user = Some u" and "selectedPrompt st \<noteq> []"
    and "find (\<lambda>p. prompts_id p = selectedPrompt st) (prompts st) = Some p"
    and "insert_run (store env) (Some (auth_id u)) (run_row env u st p) d = Inl e"
  shows "handleRun env user st d =
    \<lparr>page = st\<lparr>running := False, result := None\<rparr>, database = d,
     toasts = [toast_error ''Failed to run prompt''], requests = [run_row env u st p]\<rparr>"
  using assms by (simp add: handleRun_def run_row_def run_latency_def Let_def)

lemma handleRun_inserted:
  assumes "user = Some u" and "selectedPrompt st \<noteq> []"
    and "find (\<lambda>p. prompts_id p = selectedPrompt st) (prompts st) = Some p"
    and "insert_run (store env) (Some (auth_id u)) (run_row env u st p) d = Inr d'"
  shows "handleRun env user st d =
    \<lparr>page = st\<lparr>running := False,
               result := Some \<lparr>result_response = run_response (selectedModel st),
                               result_latency = run_latency env,
                               result_tokens = run_tokens (random_tokens env),
                               result_cost = run_cost (run_tokens (random_tokens env))
                                               (selectedModel st)\<rparr>\<rparr>,
     database = d', toasts = [toast_success ''Prompt executed successfully''],
     requests = [run_row env u st p]\<rparr>"
  using assms by (simp add: handleRun_def run_row_def run_latency_def Let_def)

text \<open>Past the guard and with the prompt found, one request is sent, whatever the store answers.\<close>

lemma handleRun_requests:
  assumes "selectedPrompt st \<noteq> []"
    and "find (\<lambda>p. prompts_id p = selectedPrompt st) (prompts st) = Some p"
  shows "requests (handleRun env (Some u) st d) = [run_row env u st p]"
proof (cases "insert_run (store env) (Some (auth_id u)) (run_row env u st p) d")
  case (Inl e)
  from handleRun_insert_failed [OF refl assms Inl] show ?thesis by simp
next
  case (Inr d')
  from handleRun_inserted [OF refl assms Inr] show ?thesis by simp
qed

lemma requests_cases:
  assumes "requests (handleRun env user st d) = [row]"
  shows "\<exists>u p. user = Some u \<and> selectedPrompt st \<noteq> [] \<and>
           find (\<lambda>p. prompts_id p = selectedPrompt st) (prompts st) = Some p \<and>
           row = run_row env u st p"
proof (cases "user = None \<or> selectedPrompt st = []")
  case True
  from handleRun_guard [OF True, of env d] assms show ?thesis by simp
next
  case False
  then obtain u where u: "user = Some u" and sel: "selectedPrompt st \<noteq> []" by auto
  show ?thesis
  proof (cases "find (\<lambda>p. prompts_id p = selectedPrompt st) (prompts st)")
    case None
    from handleRun_not_found [OF u sel None, of env d] assms show ?thesis by simp
  next
    case (Some p)
    from handleRun_requests [OF sel Some, of env u d] assms u have "row = run_row env u st p"
      by simp
    with u sel Some show ?thesis by blast
  qed
qed

lemma example_found:
  "selectedPrompt example_page \<noteq> []"
  "find (\<lambda>p. prompts_id p = selectedPrompt example_page) (prompts example_page)
     = Some example_prompt"
  by (simp_all add: example_page_def example_prompt_def)

lemma example_requests:
  "requests (handleRun env (Some example_user) example_page d)
     = [run_row env example_user example_page example_prompt]"
  using example_found by (rule handleRun_requests)

lemma example_delay:
  "run_delay (random_delay example_env) = 19999 / 5"
  "\<lceil>run_delay (9999 / 10000)\<rceil> = 4000"
  by (simp_all add: example_env_def run_delay_def ceiling_eq_iff)

lemma example_latency:
  "run_latency example_env = 4003"
  "run_latency (example_env\<lparr>random_tokens := r\<rparr>) = 4003"
  "run_latency (example_env\<lparr>store := s\<rparr>) = 4003"
  by (simp_all add: run_latency_def example_env_def example_delay(2))

subsection \<open>Cost of a run\<close>

lemma run_cost_eq:
  "run_cost tokens selected =
     (of_int tokens / 1000) *
       (case map_of (map (\<lambda>m. (value m, cost m)) MODELS) selected of
          None \<Rightarrow> 0 | Some c \<Rightarrow> c)"
proof -
  have "map_of (map (\<lambda>m. (value m, cost m)) MODELS) selected =
        map_option cost (find (\<lambda>m. value m = selected) MODELS)"
    by (simp only: find_map_of)
  then show ?thesis
    by (simp add: run_cost_def modelCost_def split: option.split)
qed

lemma run_cost_unknown:
  assumes "selected \<notin> set (map value MODELS)"
  shows "run_cost tokens selected = 0"
proof -
  have "find (\<lambda>m. value m = selected) MODELS = None"
    using assms by (auto simp: find_None_iff)
  then show ?thesis by (simp add: run_cost_def modelCost_def)
qed

lemma requests_cost:
  assumes "requests (handleRun env user st d) = [row]"
  shows "tokens_used row = Some (run_tokens (random_tokens env)) \<and>
     cost_usd row = Some (run_cost (run_tokens (random_tokens env)) (selectedModel st))"
  using requests_cases [OF assms] by (auto simp: run_row_def)

text \<open>
  C5: the cost in the row that a run sends to the store is \<open>(tokens / 1000) * unit\<close>, where
  \<open>tokens\<close> is the token count of the same row and \<open>unit\<close> is what the static table
  \<^verbatim>\<open>MODELS\<close>, read as a map from model identifier to unit cost, gives for the selected
  model; it is \<open>0\<close> when the identifier is not in the table.
\<close>

theorem run_cost_lookup:
  assumes "requests (handleRun env user st d) = [row]"
  shows "(\<exists>tokens. tokens_used row = Some tokens \<and>
            cost_usd row =
              Some ((of_int tokens / 1000) *
                 (case map_of (map (\<lambda>m. (value m, cost m)) MODELS) (selectedModel st) of
                    None \<Rightarrow> 0 | Some c \<Rightarrow> c))) \<and>
         (selectedModel st \<notin> set (map value MODELS) \<longrightarrow> cost_usd row = Some 0)"
proof -
  note r = requests_cost [OF assms]
  have "cost_usd row =
      Some ((of_int (run_tokens (random_tokens env)) / 1000) *
         (case map_of (map (\<lambda>m. (value m, cost m)) MODELS) (selectedModel st) of
            None \<Rightarrow> 0 | Some c \<Rightarrow> c))"
    using r by (simp only: run_cost_eq)
  moreover have "cost_usd row = Some 0" if "selectedModel st \<notin> set (map value MODELS)"
    using r that by (simp add: run_cost_unknown)
  ultimately show ?thesis using r by blast
qed

theorem run_cost_lookup_witness:
  "(\<exists>row. requests (handleRun example_env (Some example_user) example_page example_db) = [row] \<and>
      tokens_used row = Some 400 \<and> cost_usd row = Some (1 / 10000)) \<and>
   ''llama-3'' \<notin> set (map value MODELS) \<and>
   (\<exists>row. requests (handleRun example_env (Some example_user)
              (example_page\<lparr>selectedModel := ''llama-3''\<rparr>) example_db) = [row] \<and>
      cost_usd row = Some 0)"
proof -
  obtain row where
    row: "requests (handleRun example_env (Some example_user) example_page example_db) = [row]"
    by (simp add: example_requests)
  from run_cost_lookup [OF row] obtain tokens where t: "tokens_used row = Some tokens"
    and c: "cost_usd row =
      Some ((of_int tokens / 1000) *
         (case map_of (map (\<lambda>m. (value m, cost m)) MODELS) (selectedModel example_page) of
            None \<Rightarrow> 0 | Some c \<Rightarrow> c))"
    by blast
  from requests_cost [OF row] t have "tokens = 400"
    by (simp add: example_env_def run_tokens_def)
  with t c have known: "tokens_used row = Some 400" "cost_usd row = Some (1 / 10000)"
    by (simp_all add: example_page_def MODELS_def)
  let ?st = "example_page\<lparr>selectedModel := ''llama-3''\<rparr>"
  have "selectedPrompt ?st \<noteq> []"
    "find (\<lambda>p. prompts_id p = selectedPrompt ?st) (prompts ?st) = Some example_prompt"
    using example_found by simp_all
  then have "requests (handleRun example_env (Some example_user) ?st example_db)
      = [run_row example_env example_user ?st example_prompt]"
    by (rule handleRun_requests)
  then obtain row' where
    row': "requests (handleRun example_env (Some example_user) ?st example_db) = [row']"
    by simp
  have unknown: "selectedModel ?st \<notin> set (map value MODELS)"
    by (simp add: MODELS_def)
  with run_cost_lookup [OF row'] have zero: "cost_usd row' = Some 0" by blast
  from unknown have "''llama-3'' \<notin> set (map value MODELS)" by simp
  with row known row' zero show ?thesis by blast
qed

text \<open>
  C6 (as stated): with the model \<^verbatim>\<open>gemini-pro\<close> and 400 tokens the cost would be \<open>0.1\<close>.
  In the scenario the selected model is \<^verbatim>\<open>gemini-pro\<close> and the token count is 400, and the
  cost sent to the store is another number.
\<close>

theorem gemini_cost_not_tenth:
  "selectedModel example_page = ''gemini-pro'' \<and>
   map tokens_used (requests (handleRun example_env (Some example_user) example_page example_db))
     = [Some 400] \<and>
   map cost_usd (requests (handleRun example_env (Some example_user) example_page example_db))
     \<noteq> [Some (1 / 10)]"
  unfolding example_requests
  by (simp add: run_row_def example_page_def example_env_def
      run_tokens_def run_cost_def modelCost_def MODELS_def)

text \<open>
  C6 (amended): a run with the model \<^verbatim>\<open>gemini-pro\<close>, whose unit cost is \<open>0.00025\<close>, and a
  token count of 400 has the cost \<open>(400 / 1000) * 0.00025 = 0.0001\<close>.
\<close>

theorem gemini_cost:
  assumes "requests (handleRun env user st d) = [row]"
    and "selectedModel st = ''gemini-pro''"
    and "tokens_used row = Some 400"
  shows "cost_usd row = Some (1 / 10000) \<and> modelCost ''gemini-pro'' = 25 / 100000"
proof -
  from requests_cost [OF assms(1)] assms(3)
  have "run_tokens (random_tokens env) = 400"
    and "cost_usd row = Some (run_cost (run_tokens (random_tokens env)) (selectedModel st))"
    by simp_all
  then have "cost_usd row = Some (run_cost 400 ''gemini-pro'')"
    using assms(2) by simp
  then show ?thesis by (simp add: run_cost_def modelCost_def MODELS_def)
qed

theorem gemini_cost_witness:
  "selectedModel example_page = ''gemini-pro'' \<and>
   (\<exists>row. requests (handleRun example_env (Some example_user) example_page example_db) = [row] \<and>
      tokens_used row = Some 400 \<and> cost_usd row = Some (1 / 10000))"
proof -
  obtain row where
    row: "requests (handleRun example_env (Some example_user) example_page example_db) = [row]"
    by (simp add: example_requests)
  have m: "selectedModel example_page = ''gemini-pro''" by (simp add: example_page_def)
  have t: "tokens_used row = Some 400"
    using requests_cost [OF row] by (simp add: example_env_def run_tokens_def)
  from gemini_cost [OF row m t] row m t show ?thesis by blast
qed

subsection \<open>The fabricated numbers of a run\<close>

lemma run_tokens_range: "0 \<le> r \<Longrightarrow> r < 1 \<Longrightarrow> 100 \<le> run_tokens r \<and> run_tokens r < 500"
  unfolding run_tokens_def by (simp add: le_floor_iff floor_less_iff)

lemma run_delay_range: "0 \<le> r \<Longrightarrow> r < 1 \<Longrightarrow> 2000 \<le> run_delay r \<and> run_delay r \<le> 4000"
  unfolding run_delay_def by simp

lemma requests_row:
  assumes "requests (handleRun env user st d) = [row]"
  shows "tokens_used row = Some (run_tokens (random_tokens env)) \<and>
     latency_ms row = Some (run_latency env)"
  using requests_cases [OF assms] by (auto simp: run_row_def)

text \<open>A run that sends a request sends one in every environment.\<close>

lemma requests_in_other_env:
  assumes "requests (handleRun env user st d) = [row]"
  shows "\<exists>row'. requests (handleRun env' user st d) = [row']"
proof -
  from requests_cases [OF assms] obtain u p where "user = Some u"
    and "selectedPrompt st \<noteq> []"
    and "find (\<lambda>p. prompts_id p = selectedPrompt st) (prompts st) = Some p"
    by blast
  then show ?thesis using handleRun_requests [of st p env' u d] by simp
qed

text \<open>
  C7 (as stated): for every value of the random source the recorded elapsed time would lie
  in \<open>[2000, 4000)\<close>. The recorded latency is not the random delay but the difference of
  two clock readings taken around the timer. In the scenario the timer is asked for
  3999.8 ms and fires 3.2 ms late: the random values are in \<open>[0, 1)\<close>, the timer is
  respected, and the latency sent to the store is 4003 ms.
\<close>

theorem latency_above_4000:
  "timer_respected example_env \<and>
   map latency_ms (requests (handleRun example_env (Some example_user) example_page example_db))
     = [Some 4003] \<and>
   \<not> (\<exists>l. map latency_ms
            (requests (handleRun example_env (Some example_user) example_page example_db))
            = [Some l] \<and> 2000 \<le> l \<and> l < 4000)"
  unfolding example_requests
  by (simp add: run_row_def timer_respected_def example_latency example_delay(1))
     (simp add: example_env_def)

text \<open>
  C7 (amended): for every two values of the random source in \<open>[0, 1)\<close>, the token count
  that a run sends to the store is an integer in \<open>[100, 500)\<close>. The recorded elapsed time is
  the clock reading when the run resumes after its timer, minus the reading before the
  timer. It is at least 2000 ms when the timer does not fire early, and it has no upper
  bound: for every bound there is an execution with the same random values, the same
  start and a timer that does not fire early whose recorded time exceeds the bound.
\<close>

theorem run_numbers:
  assumes "0 \<le> random_tokens env" and "random_tokens env < 1"
    and "0 \<le> random_delay env" and "random_delay env < 1"
    and "requests (handleRun env user st d) = [row]"
  shows "(\<exists>t. tokens_used row = Some t \<and> 100 \<le> t \<and> t < 500) \<and>
         latency_ms row
           = Some (resumed_at env (run_delay (random_delay env)) - startTime env) \<and>
         (timer_respected env \<longrightarrow> (\<exists>l. latency_ms row = Some l \<and> 2000 \<le> l)) \<and>
         (\<forall>bound. \<exists>env' row'.
            random_tokens env' = random_tokens env \<and>
            random_delay env' = random_delay env \<and>
            startTime env' = startTime env \<and>
            store env' = store env \<and>
            timer_respected env' \<and>
            requests (handleRun env' user st d) = [row'] \<and>
            (\<exists>l. latency_ms row' = Some l \<and> bound < l))"
proof -
  from requests_row [OF assms(5)]
  have row: "tokens_used row = Some (run_tokens (random_tokens env))"
    "latency_ms row = Some (run_latency env)"
    by simp_all
  have t: "100 \<le> run_tokens (random_tokens env) \<and> run_tokens (random_tokens env) < 500"
    using assms(1,2) by (rule run_tokens_range)
  have dl: "2000 \<le> run_delay (random_delay env) \<and> run_delay (random_delay env) \<le> 4000"
    using assms(3,4) by (rule run_delay_range)
  have lo: "\<exists>l. latency_ms row = Some l \<and> 2000 \<le> l" if "timer_respected env"
  proof -
    from that have "run_delay (random_delay env) \<le> of_int (run_latency env)"
      by (simp add: timer_respected_def)
    with dl have "(of_int 2000 :: rat) \<le> of_int (run_latency env)" by simp
    then have "2000 \<le> run_latency env" by (simp only: of_int_le_iff)
    with row(2) show ?thesis by simp
  qed
  have unbounded: "\<exists>env' row'.
      random_tokens env' = random_tokens env \<and>
      random_delay env' = random_delay env \<and>
      startTime env' = startTime env \<and>
      store env' = store env \<and>
      timer_respected env' \<and>
      requests (handleRun env' user st d) = [row'] \<and>
      (\<exists>l. latency_ms row' = Some l \<and> bound < l)" for bound
  proof -
    let ?late = "env\<lparr>resumed_at := \<lambda>ms. startTime env + max (bound + 1) 4000\<rparr>"
    have l: "run_latency ?late = max (bound + 1) 4000"
      by (simp add: run_latency_def)
    have "run_delay (random_delay ?late) \<le> 4000" using dl by simp
    also have "(4000 :: rat) \<le> of_int (max (bound + 1) 4000)"
    proof -
      have "(4000 :: int) \<le> max (bound + 1) 4000" by simp
      then have "(of_int 4000 :: rat) \<le> of_int (max (bound + 1) 4000)"
        by (simp only: of_int_le_iff)
      then show ?thesis by simp
    qed
    finally have "timer_respected ?late"
      using assms(1-4) by (simp add: timer_respected_def l)
    moreover from requests_in_other_env [OF assms(5), of ?late]
    obtain row' where r': "requests (handleRun ?late user st d) = [row']" by blast
    moreover from requests_row [OF r'] have "latency_ms row' = Some (max (bound + 1) 4000)"
      by (simp add: l)
    then have "\<exists>l. latency_ms row' = Some l \<and> bound < l" by simp
    ultimately show ?thesis
      by (intro exI [of _ ?late] exI [of _ row']) simp
  qed
  from row(2) have lat: "latency_ms row
      = Some (resumed_at env (run_delay (random_delay env)) - startTime env)"
    by (simp add: run_latency_def)
  from row(1) t lat lo unbounded show ?thesis by blast
qed

theorem run_numbers_witness:
  "0 \<le> random_tokens example_env \<and> random_tokens example_env < 1 \<and>
   0 \<le> random_delay example_env \<and> random_delay example_env < 1 \<and>
   timer_respected example_env \<and>
   (\<exists>row. requests (handleRun example_env (Some example_user) example_page example_db) = [row] \<and>
     tokens_used row = Some 400 \<and> latency_ms row = Some 4003 \<and>
     (\<exists>t. tokens_used row = Some t \<and> 100 \<le> t \<and> t < 500) \<and>
     (\<exists>l. latency_ms row = Some l \<and> 2000 \<le> l)) \<and>
   (\<exists>env' row'. timer_respected env' \<and>
      requests (handleRun env' (Some example_user) example_page example_db) = [row'] \<and>
      (\<exists>l. latency_ms row' = Some l \<and> 86400000 < l))"
proof -
  have r: "0 \<le> random_tokens example_env" "random_tokens example_env < 1"
    "0 \<le> random_delay example_env" "random_delay example_env < 1"
    by (simp_all add: example_env_def)
  obtain row where
    row: "requests (handleRun example_env (Some example_user) example_page example_db) = [row]"
    by (simp add: example_requests)
  have v: "tokens_used row = Some 400" "latency_ms row = Some 4003"
    using requests_row [OF row]
    by (simp_all add: example_latency) (simp add: example_env_def run_tokens_def)
  have late: "timer_respected example_env"
    by (simp add: timer_respected_def example_latency example_delay(1))
       (simp add: example_env_def)
  note n = run_numbers [OF r row]
  from n have a: "\<exists>t. tokens_used row = Some t \<and> 100 \<le> t \<and> t < 500" by blast
  from n late have b: "\<exists>l. latency_ms row = Some l \<and> 2000 \<le> l" by blast
  from n have "\<exists>env' row'. random_tokens env' = random_tokens example_env \<and>
      random_delay env' = random_delay example_env \<and>
      startTime env' = startTime example_env \<and>
      store env' = store example_env \<and>
      timer_respected env' \<and>
      requests (handleRun env' (Some example_user) example_page example_db) = [row'] \<and>
      (\<exists>l. latency_ms row' = Some l \<and> 86400000 < l)"
    by blast
  then have c: "\<exists>env' row'. timer_respected env' \<and>
      requests (handleRun env' (Some example_user) example_page example_db) = [row'] \<and>
      (\<exists>l. latency_ms row' = Some l \<and> 86400000 < l)"
    by blast
  from r late row v a b c show ?thesis by blast
qed

subsection \<open>A run writes a row exactly when it succeeds\<close>

lemma numeric_10_6_near:
  assumes "numeric_10_6 x = Some y"
  shows "(\<exists>k::int. y = of_int k / 1000000) \<and> \<bar>y - x\<bar> \<le> 1 / 2000000"
proof -
  define k where "k = (if 0 \<le> x then \<lfloor>x * 1000000 + 1 / 2\<rfloor> else - \<lfloor>- x * 1000000 + 1 / 2\<rfloor>)"
  from assms have y: "y = of_int k / 1000000"
    by (simp add: numeric_10_6_def k_def Let_def split: if_splits)
  have near: "\<bar>of_int \<lfloor>z + 1 / 2\<rfloor> - z\<bar> \<le> 1 / 2" for z :: rat
    using of_int_round_abs_le [of z] by (simp add: round_def)
  have "\<bar>of_int k - x * 1000000\<bar> \<le> 1 / 2"
  proof (cases "0 \<le> x")
    case True
    then show ?thesis using near [of "x * 1000000"] by (simp add: k_def)
  next
    case False
    have "\<bar>of_int k - x * 1000000\<bar> =
        \<bar>of_int \<lfloor>- x * 1000000 + 1 / 2\<rfloor> - (- x * 1000000)\<bar>"
      using False by (simp add: k_def abs_minus_commute)
    also have "\<dots> \<le> 1 / 2" by (rule near)
    finally show ?thesis .
  qed
  then have "\<bar>(of_int k - x * 1000000) / 1000000\<bar> \<le> (1 / 2) / 1000000"
    by (simp only: abs_divide) (simp add: divide_le_cancel)
  then have "\<bar>y - x\<bar> \<le> 1 / 2000000" by (simp add: y diff_divide_distrib)
  with y show ?thesis by blast
qed

lemma coerce_run_Some:
  assumes "coerce_run row = Some stored"
  shows "prompt_id stored = prompt_id row" "model stored = model row"
    "response stored = response row" "tokens_used stored = tokens_used row"
    "latency_ms stored = latency_ms row" "status stored = status row"
    "user_id stored = user_id row"
    "cost_usd row = Some c \<Longrightarrow> \<exists>c'. cost_usd stored = Some c' \<and> numeric_10_6 c = Some c'"
  using assms by (auto simp: coerce_run_def split: if_splits option.splits)

lemma insert_run_Inr:
  assumes "insert_run e a row d = Inr d'"
  shows "\<exists>stored. coerce_run row = Some stored \<and>
    d' = d\<lparr>public_runs := public_runs d @
             [run_insert.extend stored (run.fields (gen_random_uuid e) None (Some (now e)))]\<rparr>"
  using assms by (simp add: insert_run_def split: if_splits option.splits)

lemma extend_columns:
  "prompt_id (run_insert.extend row m) = prompt_id row"
  "model (run_insert.extend row m) = model row"
  "response (run_insert.extend row m) = response row"
  "tokens_used (run_insert.extend row m) = tokens_used row"
  "latency_ms (run_insert.extend row m) = latency_ms row"
  "cost_usd (run_insert.extend row m) = cost_usd row"
  "status (run_insert.extend row m) = status row"
  "user_id (run_insert.extend row m) = user_id row"
  by (simp_all add: run_insert.defs)

text \<open>
  C8: \<^verbatim>\<open>handleRun\<close> writes a row of \<^verbatim>\<open>runs\<close> if and only if it succeeds. On success it
  has sent exactly one insert, whose row has status \<^verbatim>\<open>completed\<close>, the computed response,
  tokens, latency and cost, the selected prompt and model, and the identifier of the
  acting user; the store holds exactly one more run, which carries these fields as its
  columns keep them (the cost to the six decimals of \<^verbatim>\<open>DECIMAL(10, 6)\<close>: within half a
  millionth of the computed cost), and nothing else in the store has changed. Whenever it
  does not succeed the store is unchanged and an error is shown. If the selected
  identifier is not among the loaded prompts, the error toast is shown, the store is
  unchanged and no request was sent to it. If no prompt is selected (or nobody is signed
  in), the error is shown before any store call, and neither the component's state nor
  the store changes.
\<close>

theorem handleRun_writes_iff_succeeds:
  "(succeeded (handleRun env user st d) \<longleftrightarrow>
      public_runs (database (handleRun env user st d)) \<noteq> public_runs d) \<and>
   (succeeded (handleRun env user st d) \<longrightarrow>
      (\<exists>u row r c. user = Some u \<and>
         requests (handleRun env user st d) = [row] \<and>
         status row = Some ''completed'' \<and>
         user_id row = auth_id u \<and>
         prompt_id row = Some (selectedPrompt st) \<and>
         model row = selectedModel st \<and>
         response row = Some (run_response (selectedModel st)) \<and>
         tokens_used row = Some (run_tokens (random_tokens env)) \<and>
         latency_ms row = Some (resumed_at env (run_delay (random_delay env)) - startTime env) \<and>
         cost_usd row = Some (run_cost (run_tokens (random_tokens env)) (selectedModel st)) \<and>
         database (handleRun env user st d) = d\<lparr>public_runs := public_runs d @ [r]\<rparr> \<and>
         status r = status row \<and>
         user_id r = user_id row \<and>
         prompt_id r = prompt_id row \<and>
         model r = model row \<and>
         response r = response row \<and>
         tokens_used r = tokens_used row \<and>
         latency_ms r = latency_ms row \<and>
         cost_usd r = Some c \<and>
         (\<exists>k::int. c = of_int k / 1000000) \<and>
         \<bar>c - run_cost (run_tokens (random_tokens env)) (selectedModel st)\<bar> \<le> 1 / 2000000)) \<and>
   (\<not> succeeded (handleRun env user st d) \<longrightarrow>
      database (handleRun env user st d) = d \<and>
      (\<exists>m. toasts (handleRun env user st d) = [toast_error m])) \<and>
   (user \<noteq> None \<and> selectedPrompt st \<noteq> [] \<and>
    find (\<lambda>p. prompts_id p = selectedPrompt st) (prompts st) = None \<longrightarrow>
      toasts (handleRun env user st d) = [toast_error ''Failed to run prompt''] \<and>
      database (handleRun env user st d) = d \<and>
      requests (handleRun env user st d) = []) \<and>
   (user = None \<or> selectedPrompt st = [] \<longrightarrow>
      toasts (handleRun env user st d) = [toast_error ''Please select a prompt''] \<and>
      requests (handleRun env user st d) = [] \<and>
      page (handleRun env user st d) = st \<and>
      database (handleRun env user st d) = d)"
proof (cases "user = None \<or> selectedPrompt st = []")
  case True
  from handleRun_guard [OF True, of env d] show ?thesis
    using True by (auto simp: succeeded_def)
next
  case False
  then obtain u where u: "user = Some u" and sel: "selectedPrompt st \<noteq> []" by auto
  show ?thesis
  proof (cases "find (\<lambda>p. prompts_id p = selectedPrompt st) (prompts st)")
    case None
    from handleRun_not_found [OF u sel None, of env d] show ?thesis
      using u sel None by (simp add: succeeded_def)
  next
    case (Some p)
    have pid: "prompts_id p = selectedPrompt st" using Some by (rule find_Some_id)
    show ?thesis
    proof (cases "insert_run (store env) (Some (auth_id u)) (run_row env u st p) d")
      case (Inl e)
      from handleRun_insert_failed [OF u sel Some Inl] show ?thesis
        using u sel Some by (simp add: succeeded_def)
    next
      case (Inr d')
      let ?row = "run_row env u st p"
      let ?cost = "run_cost (run_tokens (random_tokens env)) (selectedModel st)"
      from insert_run_Inr [OF Inr] obtain stored where co: "coerce_run ?row = Some stored"
        and d': "d' = d\<lparr>public_runs := public_runs d @
             [run_insert.extend stored
                (run.fields (gen_random_uuid (store env)) None (Some (now (store env))))]\<rparr>"
        by blast
      let ?r = "run_insert.extend stored
                  (run.fields (gen_random_uuid (store env)) None (Some (now (store env))))"
      have out: "succeeded (handleRun env user st d)"
        "requests (handleRun env user st d) = [?row]"
        "database (handleRun env user st d) = d\<lparr>public_runs := public_runs d @ [?r]\<rparr>"
        using handleRun_inserted [OF u sel Some Inr] d' by (simp_all add: succeeded_def)
      have sent: "status ?row = Some ''completed''" "user_id ?row = auth_id u"
        "prompt_id ?row = Some (selectedPrompt st)" "model ?row = selectedModel st"
        "response ?row = Some (run_response (selectedModel st))"
        "tokens_used ?row = Some (run_tokens (random_tokens env))"
        "latency_ms ?row
           = Some (resumed_at env (run_delay (random_delay env)) - startTime env)"
        "cost_usd ?row = Some ?cost"
        by (simp_all add: run_row_def run_latency_def pid)
      have kept: "status ?r = status ?row" "user_id ?r = user_id ?row"
        "prompt_id ?r = prompt_id ?row" "model ?r = model ?row"
        "response ?r = response ?row" "tokens_used ?r = tokens_used ?row"
        "latency_ms ?r = latency_ms ?row"
        by (simp_all add: extend_columns coerce_run_Some [OF co])
      from coerce_run_Some(8) [OF co sent(8)] obtain c where
        c: "cost_usd stored = Some c" "numeric_10_6 ?cost = Some c"
        by blast
      then have cost: "cost_usd ?r = Some c" by (simp add: extend_columns)
      note near = numeric_10_6_near [OF c(2)]
      have changed: "public_runs (database (handleRun env user st d)) \<noteq> public_runs d"
        by (simp add: out(3))
      have row: "\<exists>u row r c. user = Some u \<and>
         requests (handleRun env user st d) = [row] \<and>
         status row = Some ''completed'' \<and>
         user_id row = auth_id u \<and>
         prompt_id row = Some (selectedPrompt st) \<and>
         model row = selectedModel st \<and>
         response row = Some (run_response (selectedModel st)) \<and>
         tokens_used row = Some (run_tokens (random_tokens env)) \<and>
         latency_ms row = Some (resumed_at env (run_delay (random_delay env)) - startTime env) \<and>
         cost_usd row = Some ?cost \<and>
         database (handleRun env user st d) = d\<lparr>public_runs := public_runs d @ [r]\<rparr> \<and>
         status r = status row \<and>
         user_id r = user_id row \<and>
         prompt_id r = prompt_id row \<and>
         model r = model row \<and>
         response r = response row \<and>
         tokens_used r = tokens_used row \<and>
         latency_ms r = latency_ms row \<and>
         cost_usd r = Some c \<and>
         (\<exists>k::int. c = of_int k / 1000000) \<and>
         \<bar>c - ?cost\<bar> \<le> 1 / 2000000"
        using u out(2,3) sent kept cost near
        by (intro exI [of _ u] exI [of _ ?row] exI [of _ ?r] exI [of _ c]) simp
      from out(1) changed row u sel Some show ?thesis by simp
    qed
  qed
qed

lemma millionths_unique:
  fixes c :: rat and k n :: int
  assumes "c = of_int k / 1000000" and "\<bar>c - x\<bar> \<le> 1 / 2000000"
    and "of_int n - 1 / 2 < x * 1000000" and "x * 1000000 < of_int n + 1 / 2"
  shows "c = of_int n / 1000000"
proof -
  have "\<bar>of_int k / 1000000 - x\<bar> \<le> 1 / 2000000"
    using assms(2) unfolding assms(1) .
  then have "of_int k / 1000000 - x \<le> 1 / 2000000" and "x - of_int k / 1000000 \<le> 1 / 2000000"
    by (simp_all only: abs_le_iff minus_diff_eq)
  then have "of_int k - 1 / 2 \<le> x * 1000000" and "x * 1000000 \<le> of_int k + 1 / 2"
    by linarith+
  with assms(3,4) have "(of_int n :: rat) < of_int k + 1" and "(of_int k :: rat) < of_int n + 1"
    by linarith+
  then have "(of_int n :: rat) < of_int (k + 1)" and "(of_int k :: rat) < of_int (n + 1)"
    by simp_all
  then have "n < k + 1" and "k < n + 1" by (simp_all only: of_int_less_iff)
  then have "k = n" by simp
  with assms(1) show ?thesis by simp
qed

theorem handleRun_writes_iff_succeeds_witness:
  "succeeded (handleRun example_env (Some example_user) example_page example_db) \<and>
   public_runs (database (handleRun example_env (Some example_user) example_page example_db))
     \<noteq> public_runs example_db \<and>
   map status
     (public_runs (database (handleRun example_env (Some example_user) example_page example_db)))
     = [Some ''completed''] \<and>
   map user_id
     (public_runs (database (handleRun example_env (Some example_user) example_page example_db)))
     = [''u1''] \<and>
   map cost_usd
     (public_runs (database (handleRun example_env (Some example_user) example_page example_db)))
     = [Some (1 / 10000)] \<and>
   succeeded
     (handleRun (example_env\<lparr>random_tokens := 13 / 400\<rparr>) (Some example_user) example_page
        example_db) \<and>
   map cost_usd
     (requests (handleRun (example_env\<lparr>random_tokens := 13 / 400\<rparr>) (Some example_user)
        example_page example_db))
     = [Some (113 / 4000000)] \<and>
   map cost_usd
     (public_runs (database (handleRun (example_env\<lparr>random_tokens := 13 / 400\<rparr>)
        (Some example_user) example_page example_db)))
     = [Some (28 / 1000000)] \<and>
   find (\<lambda>p. prompts_id p = ''p9'') (prompts (example_page\<lparr>selectedPrompt := ''p9''\<rparr>)) = None \<and>
   \<not> succeeded
       (handleRun example_env (Some example_user) (example_page\<lparr>selectedPrompt := ''p9''\<rparr>)
          example_db) \<and>
   database
       (handleRun example_env (Some example_user) (example_page\<lparr>selectedPrompt := ''p9''\<rparr>)
          example_db) = example_db \<and>
   requests
       (handleRun example_env (Some example_user) (example_page\<lparr>selectedPrompt := ''p9''\<rparr>)
          example_db) = [] \<and>
   page
       (handleRun example_env (Some example_user) (example_page\<lparr>selectedPrompt := []\<rparr>)
          example_db) = example_page\<lparr>selectedPrompt := []\<rparr> \<and>
   database
       (handleRun example_env (Some example_user) (example_page\<lparr>selectedPrompt := []\<rparr>)
          example_db) = example_db \<and>
   requests
       (handleRun example_env (Some example_user) (example_page\<lparr>selectedPrompt := []\<rparr>)
          example_db) = [] \<and>
   \<not> succeeded
       (handleRun (example_env\<lparr>store := (store example_env)\<lparr>unreachable := True\<rparr>\<rparr>)
          (Some example_user) example_page example_db) \<and>
   database
       (handleRun (example_env\<lparr>store := (store example_env)\<lparr>unreachable := True\<rparr>\<rparr>)
          (Some example_user) example_page example_db) = example_db"
proof -
  let ?u = "Some example_user"
  let ?down = "example_env\<lparr>store := (store example_env)\<lparr>unreachable := True\<rparr>\<rparr>"
  let ?e113 = "example_env\<lparr>random_tokens := 13 / 400\<rparr>"
  let ?ok = "handleRun example_env ?u example_page example_db"
  let ?ok113 = "handleRun ?e113 ?u example_page example_db"
  let ?p9 = "example_page\<lparr>selectedPrompt := ''p9''\<rparr>"
  let ?no = "example_page\<lparr>selectedPrompt := []\<rparr>"
  have f400: "\<lfloor>(1 / 10000 :: rat) * 1000000 + 1 / 2\<rfloor> = 100"
    and f113: "\<lfloor>(113 / 4000000 :: rat) * 1000000 + 1 / 2\<rfloor> = 28"
    by (simp_all add: floor_eq_iff)
  have t400: "run_tokens (3 / 4) = 400" and t113: "run_tokens (13 / 400) = 113"
    by (simp_all add: run_tokens_def floor_eq_iff)
  have c400: "run_cost 400 ''gemini-pro'' = 1 / 10000"
    and c113: "run_cost 113 ''gemini-pro'' = 113 / 4000000"
    by (simp_all add: run_cost_def modelCost_def MODELS_def)
  have ok: "succeeded ?ok"
    by (simp add: succeeded_def example_defs handleRun_def insert_run_def coerce_run_def
        fits_integer_def numeric_10_6_def permitted_def Let_def t400 c400 f400
        example_delay(2))
  have ok113: "succeeded ?ok113"
    by (simp add: succeeded_def example_defs handleRun_def insert_run_def coerce_run_def
        fits_integer_def numeric_10_6_def permitted_def Let_def t113 c113 f113
        example_delay(2))
  from handleRun_writes_iff_succeeds [of example_env ?u example_page example_db,
      THEN conjunct2, THEN conjunct1, rule_format, OF ok]
  obtain u and row :: run_insert and r c where u: "?u = Some u"
    and r: "database ?ok = example_db\<lparr>public_runs := public_runs example_db @ [r]\<rparr>"
      "status row = Some ''completed''" "user_id row = auth_id u"
      "status r = status row" "user_id r = user_id row" "cost_usd r = Some c"
    and k: "\<exists>k::int. c = of_int k / 1000000"
    and near: "\<bar>c - run_cost (run_tokens (random_tokens example_env))
                       (selectedModel example_page)\<bar> \<le> 1 / 2000000"
    by blast
  from u have "u = example_user" by simp
  then have uid: "auth_id u = ''u1''" by (simp add: example_user_def)
  from near have near': "\<bar>c - 1 / 10000\<bar> \<le> 1 / 2000000"
    by (simp add: example_env_def example_page_def t400 c400)
  from k obtain k :: int where "c = of_int k / 1000000" by blast
  from millionths_unique [OF this near', of 100] have "c = 1 / 10000" by simp
  with r uid have rows: "public_runs (database ?ok) \<noteq> public_runs example_db"
    "map status (public_runs (database ?ok)) = [Some ''completed'']"
    "map user_id (public_runs (database ?ok)) = [''u1'']"
    "map cost_usd (public_runs (database ?ok)) = [Some (1 / 10000)]"
    by (simp_all add: example_db_def)
  from handleRun_writes_iff_succeeds [of ?e113 ?u example_page example_db,
      THEN conjunct2, THEN conjunct1, rule_format, OF ok113]
  obtain row' :: run_insert and r' c' where
    r': "requests ?ok113 = [row']"
      "cost_usd row' = Some (run_cost (run_tokens (random_tokens ?e113))
                               (selectedModel example_page))"
      "database ?ok113 = example_db\<lparr>public_runs := public_runs example_db @ [r']\<rparr>"
      "cost_usd r' = Some c'"
    and k': "\<exists>k::int. c' = of_int k / 1000000"
    and near113: "\<bar>c' - run_cost (run_tokens (random_tokens ?e113))
                       (selectedModel example_page)\<bar> \<le> 1 / 2000000"
    by blast
  have cost113: "run_cost (run_tokens (random_tokens ?e113)) (selectedModel example_page)
      = 113 / 4000000"
    by (simp add: example_page_def t113 c113)
  from k' obtain k' :: int where "c' = of_int k' / 1000000" by blast
  from millionths_unique [OF this near113 [unfolded cost113], of 28]
  have "c' = 28 / 1000000" by simp
  with r' cost113 have rows113: "map cost_usd (requests ?ok113) = [Some (113 / 4000000)]"
    "map cost_usd (public_runs (database ?ok113)) = [Some (28 / 1000000)]"
    by (simp_all add: example_db_def)
  have sel9: "?u \<noteq> None \<and> selectedPrompt ?p9 \<noteq> [] \<and>
      find (\<lambda>p. prompts_id p = selectedPrompt ?p9) (prompts ?p9) = None"
    by (simp add: example_page_def example_prompt_def)
  from handleRun_writes_iff_succeeds [of example_env ?u ?p9 example_db] sel9
  have nf: "toasts (handleRun example_env ?u ?p9 example_db) = [toast_error ''Failed to run prompt'']"
    "database (handleRun example_env ?u ?p9 example_db) = example_db"
    "requests (handleRun example_env ?u ?p9 example_db) = []"
    by blast+
  from nf(1) have nf': "\<not> succeeded (handleRun example_env ?u ?p9 example_db)"
    by (simp add: succeeded_def)
  have sel0: "?u = None \<or> selectedPrompt ?no = []" by simp
  from handleRun_writes_iff_succeeds [of example_env ?u ?no example_db] sel0
  have ns: "page (handleRun example_env ?u ?no example_db) = ?no"
    "database (handleRun example_env ?u ?no example_db) = example_db"
    "requests (handleRun example_env ?u ?no example_db) = []"
    by blast+
  have f9: "find (\<lambda>p. prompts_id p = ''p9'') (prompts ?p9) = None"
    using sel9 by simp
  have down: "\<not> succeeded (handleRun ?down ?u example_page example_db)"
    by (simp add: succeeded_def example_defs handleRun_def insert_run_def Let_def)
  with handleRun_writes_iff_succeeds [of ?down ?u example_page example_db]
  have kept: "database (handleRun ?down ?u example_page example_db) = example_db"
    by blast
  from ok rows ok113 rows113 f9 nf' nf(2,3) ns down kept show ?thesis by blast
qed

subsection \<open>Deleting a prompt\<close>

lemma permitted_delete_prompt:
  "permitted Prompts DELETE auth_uid i (Some owner) = (auth_uid = Some owner)"
  by (cases auth_uid) (auto simp: permitted_def)

lemma delete_prompt_Inr:
  "delete_prompt a pid d =
     Inr (d\<lparr>public_prompts :=
              filter (\<lambda>p. \<not> (prompts_id p = pid \<and> a = Some (prompts_user_id p)))
                (public_prompts d),
            public_runs :=
              filter (\<lambda>r. \<not> (case prompt_id r of
                   None \<Rightarrow> False
                 | Some q \<Rightarrow> q \<in> set (map prompts_id
                     (filter (\<lambda>p. prompts_id p = pid \<and> a = Some (prompts_user_id p))
                      (public_prompts d)))))
                (public_runs d)\<rparr>)"
  by (simp add: delete_prompt_def runs_prompt_id_on_delete_def Let_def
      permitted_delete_prompt)

lemma cascade_filter:
  "filter (\<lambda>r. \<not> (case prompt_id r of
       None \<Rightarrow> False
     | Some q \<Rightarrow> q \<in> set (map prompts_id
         (filter (\<lambda>p. prompts_id p = pid \<and> a = Some (prompts_user_id p)) ps)))) rs =
   (if \<exists>p \<in> set ps. prompts_id p = pid \<and> a = Some (prompts_user_id p)
    then filter (\<lambda>r. prompt_id r \<noteq> Some pid) rs else rs)"
proof (cases "\<exists>p \<in> set ps. prompts_id p = pid \<and> a = Some (prompts_user_id p)")
  case True
  then have "set (map prompts_id
      (filter (\<lambda>p. prompts_id p = pid \<and> a = Some (prompts_user_id p)) ps)) = {pid}"
    by auto
  then show ?thesis using True by (auto split: option.split intro!: filter_cong)
next
  case False
  then have e: "filter (\<lambda>p. prompts_id p = pid \<and> a = Some (prompts_user_id p)) ps = []"
    by (auto simp: filter_empty_conv)
  have "filter (\<lambda>r. \<not> (case prompt_id r of
       None \<Rightarrow> False
     | Some q \<Rightarrow> q \<in> set (map prompts_id
         (filter (\<lambda>p. prompts_id p = pid \<and> a = Some (prompts_user_id p)) ps)))) rs = rs"
    unfolding e by (induction rs) (auto split: option.split)
  with False show ?thesis by (simp only: if_False)
qed

text \<open>
  C9: deleting a prompt always goes through. It removes from \<^verbatim>\<open>prompts\<close> exactly the rows
  with the given identifier that belong to the principal. When there is such a row, it
  removes from \<^verbatim>\<open>runs\<close> exactly the rows whose \<^verbatim>\<open>prompt_id\<close> is that identifier, whoever
  owns them, and keeps every other run as it was; when there is none, \<^verbatim>\<open>runs\<close> is
  unchanged. The other tables are unchanged. So for every row of \<^verbatim>\<open>prompts\<close> that the
  delete removes, every run that referenced it before is gone afterwards and no remaining
  run references it.
\<close>

theorem delete_prompt_cascades:
  "\<exists>d'. delete_prompt auth_uid pid d = Inr d' \<and>
     public_prompts d' =
       filter (\<lambda>p. \<not> (prompts_id p = pid \<and> auth_uid = Some (prompts_user_id p)))
         (public_prompts d) \<and>
     public_runs d' =
       (if \<exists>p \<in> set (public_prompts d). prompts_id p = pid \<and> auth_uid = Some (prompts_user_id p)
        then filter (\<lambda>r. prompt_id r \<noteq> Some pid) (public_runs d)
        else public_runs d) \<and>
     public_projects d' = public_projects d \<and>
     public_profiles d' = public_profiles d \<and>
     (\<forall>p \<in> set (public_prompts d). p \<notin> set (public_prompts d') \<longrightarrow>
        prompts_id p = pid \<and>
        (\<forall>r \<in> set (public_runs d). prompt_id r = Some (prompts_id p) \<longrightarrow>
           r \<notin> set (public_runs d')) \<and>
        (\<forall>r \<in> set (public_runs d'). prompt_id r \<noteq> Some (prompts_id p)) \<and>
        length (public_runs d') =
          length (public_runs d)
            - length (filter (\<lambda>r. prompt_id r = Some (prompts_id p)) (public_runs d)))"
proof -
  let ?mine = "\<lambda>p. prompts_id p = pid \<and> auth_uid = Some (prompts_user_id p)"
  define d' where "d' = d\<lparr>public_prompts := filter (\<lambda>p. \<not> ?mine p) (public_prompts d),
               public_runs :=
                 (if \<exists>p \<in> set (public_prompts d). ?mine p
                  then filter (\<lambda>r. prompt_id r \<noteq> Some pid) (public_runs d)
                  else public_runs d)\<rparr>"
  have del: "delete_prompt auth_uid pid d = Inr d'"
    unfolding d'_def by (simp only: delete_prompt_Inr cascade_filter)
  have ps: "public_prompts d' = filter (\<lambda>p. \<not> ?mine p) (public_prompts d)"
    and rs: "public_runs d' =
       (if \<exists>p \<in> set (public_prompts d). ?mine p
        then filter (\<lambda>r. prompt_id r \<noteq> Some pid) (public_runs d)
        else public_runs d)"
    and others: "public_projects d' = public_projects d" "public_profiles d' = public_profiles d"
    by (simp_all add: d'_def)
  have len: "length (filter (\<lambda>r. prompt_id r \<noteq> Some pid) xs) =
      length xs - length (filter (\<lambda>r. prompt_id r = Some pid) xs)" for xs :: "run list"
    using sum_length_filter_compl [of "\<lambda>r. prompt_id r = Some pid" xs] by simp
  have removed: "prompts_id p = pid \<and>
        (\<forall>r \<in> set (public_runs d). prompt_id r = Some (prompts_id p) \<longrightarrow>
           r \<notin> set (public_runs d')) \<and>
        (\<forall>r \<in> set (public_runs d'). prompt_id r \<noteq> Some (prompts_id p)) \<and>
        length (public_runs d') =
          length (public_runs d)
            - length (filter (\<lambda>r. prompt_id r = Some (prompts_id p)) (public_runs d))"
    if "p \<in> set (public_prompts d)" and "p \<notin> set (public_prompts d')" for p
  proof -
    from that have mine: "?mine p" unfolding ps by simp
    with that(1) have "\<exists>p \<in> set (public_prompts d). ?mine p" by blast
    then have rs': "public_runs d' = filter (\<lambda>r. prompt_id r \<noteq> Some pid) (public_runs d)"
      unfolding rs by (rule if_P)
    from mine have pid: "prompts_id p = pid" by simp
    show ?thesis unfolding pid rs' by (simp add: len)
  qed
  from del ps rs others removed show ?thesis by blast
qed

theorem delete_prompt_cascades_witness:
  "\<exists>d'. delete_prompt (Some ''u1'') ''p1'' example_store = Inr d' \<and>
     example_prompt \<in> set (public_prompts example_store) \<and>
     example_prompt \<notin> set (public_prompts d') \<and>
     map prompts_id (public_prompts d') = [''p2''] \<and>
     map prompt_id (public_runs example_store) = [Some ''p1'', Some ''p2'', Some ''p1''] \<and>
     map run_id (public_runs example_store) = [''r1'', ''r2'', ''r3''] \<and>
     map run_id (public_runs d') = [''r2''] \<and>
     length (public_runs d') = 1 \<and>
     list_all (\<lambda>r. prompt_id r \<noteq> Some ''p1'') (public_runs d')"
proof -
  from delete_prompt_cascades [of "Some ''u1''" "''p1''" example_store]
  obtain d' where d': "delete_prompt (Some ''u1'') ''p1'' example_store = Inr d'"
    and ps: "public_prompts d' =
       filter (\<lambda>p. \<not> (prompts_id p = ''p1'' \<and> Some ''u1'' = Some (prompts_user_id p)))
         (public_prompts example_store)"
    and rs: "public_runs d' =
       (if \<exists>p \<in> set (public_prompts example_store).
             prompts_id p = ''p1'' \<and> Some ''u1'' = Some (prompts_user_id p)
        then filter (\<lambda>r. prompt_id r \<noteq> Some ''p1'') (public_runs example_store)
        else public_runs example_store)"
    and c: "\<forall>p \<in> set (public_prompts example_store). p \<notin> set (public_prompts d') \<longrightarrow>
        (\<forall>r \<in> set (public_runs d'). prompt_id r \<noteq> Some (prompts_id p))"
    by blast
  have before: "example_prompt \<in> set (public_prompts example_store)"
    "map prompt_id (public_runs example_store) = [Some ''p1'', Some ''p2'', Some ''p1'']"
    "map run_id (public_runs example_store) = [''r1'', ''r2'', ''r3'']"
    by (simp_all add: example_store_def example_run_def)
  have after: "example_prompt \<notin> set (public_prompts d')"
    "map prompts_id (public_prompts d') = [''p2'']"
    "map run_id (public_runs d') = [''r2'']" "length (public_runs d') = 1"
    unfolding ps rs by (simp_all add: example_store_def example_run_def example_prompt_def)
  from c before(1) after(1)
  have "\<forall>r \<in> set (public_runs d'). prompt_id r \<noteq> Some (prompts_id example_prompt)"
    by blast
  then have "list_all (\<lambda>r. prompt_id r \<noteq> Some ''p1'') (public_runs d')"
    by (simp add: list_all_iff example_prompt_def)
  with d' before after show ?thesis
    by (intro exI [of _ d']) simp
qed

subsection \<open>Who can read and write profiles\<close>

lemma permitted_simps:
  "permitted Projects SELECT (Some u) i (Some o') = (o' = u)"
  "permitted Prompts SELECT (Some u) i (Some o') = (o' = u)"
  "permitted Runs SELECT (Some u) i (Some o') = (o' = u)"
  "permitted Profiles SELECT a i w = True"
  "permitted Profiles UPDATE (Some u) i w = (i = u)"
  "permitted Profiles INSERT (Some u) i w = (i = u)"
  by (simp_all add: permitted_def)

text \<open>
  C10: a signed-in user \<open>u\<close> who selects from \<^verbatim>\<open>profiles\<close> gets every row of the table, so
  also the row of any other user \<open>v\<close>, with its email, full name, avatar URL and plan;
  the same user selecting from \<^verbatim>\<open>projects\<close>, \<^verbatim>\<open>prompts\<close> or \<^verbatim>\<open>runs\<close> gets only the rows
  whose \<^verbatim>\<open>user_id\<close> is \<open>u\<close>; and the UPDATE and INSERT policies of \<^verbatim>\<open>profiles\<close> admit a
  row only when its \<^verbatim>\<open>id\<close> is \<open>u\<close>.
\<close>

theorem profiles_readable_by_all:
  "select_profiles (Some u) d = public_profiles d \<and>
   (\<forall>p \<in> set (public_profiles d). profiles_id p = v \<longrightarrow> p \<in> set (select_profiles (Some u) d)) \<and>
   select_projects (Some u) d = filter (\<lambda>r. projects_user_id r = u) (public_projects d) \<and>
   select_prompts (Some u) d = filter (\<lambda>r. prompts_user_id r = u) (public_prompts d) \<and>
   select_runs (Some u) d = filter (\<lambda>r. user_id r = u) (public_runs d) \<and>
   (permitted Profiles UPDATE (Some u) v None \<longleftrightarrow> v = u) \<and>
   (permitted Profiles INSERT (Some u) v None \<longleftrightarrow> v = u)"
  by (simp add: select_profiles_def select_projects_def select_prompts_def select_runs_def
      permitted_simps)

theorem profiles_readable_by_all_witness:
  "map profiles_email (select_profiles (Some ''u1'') example_store)
     = [Some ''ada@example.org'', Some ''bob@example.org''] \<and>
   map profiles_plan (filter (\<lambda>p. profiles_id p = ''u2'') (select_profiles (Some ''u1'') example_store))
     = [Some ''pro''] \<and>
   map run_id (select_runs (Some ''u1'') example_store) = [''r1'', ''r2''] \<and>
   \<not> permitted Profiles UPDATE (Some ''u1'') ''u2'' None \<and>
   \<not> permitted Profiles INSERT (Some ''u1'') ''u2'' None \<and>
   permitted Profiles UPDATE (Some ''u1'') ''u1'' None"
  using profiles_readable_by_all [of "''u1''" example_store "''u2''"]
    profiles_readable_by_all [of "''u1''" example_store "''u1''"]
  by (simp add: example_store_def example_run_def)


subsection \<open>The statistics of the page Analytics\<close>

lemma fold_plus: "fold (\<lambda>x s. s + f x) xs a = a + sum_list (map f xs)"
  for a :: "'a::comm_monoid_add"
  by (induction xs arbitrary: a) (simp_all add: add.assoc)

lemma of_int_sum_list_map:
  "(of_int (\<Sum>x\<leftarrow>xs. f x) :: rat) = (\<Sum>x\<leftarrow>xs. of_int (f x))"
  by (induction xs) simp_all

lemma column_or_0_eq: "column_or_0 c = (case c of None \<Rightarrow> 0 | Some x \<Rightarrow> x)"
  by (simp add: column_or_0_def split: option.split)

lemma floor_half_nearest:
  "\<bar>of_int \<lfloor>x + 1 / 2\<rfloor> - x\<bar> \<le> 1 / 2 \<and>
   (\<forall>k::int. \<bar>of_int \<lfloor>x + 1 / 2\<rfloor> - x\<bar> \<le> \<bar>of_int k - x\<bar>)"
  for x :: rat
proof -
  have r: "\<lfloor>x + 1 / 2\<rfloor> = round x" by (simp add: round_def)
  have "\<bar>of_int (round x) - x\<bar> \<le> 1 / 2" by (rule of_int_round_abs_le)
  moreover have "\<bar>of_int (round x) - x\<bar> \<le> \<bar>of_int k - x\<bar>" for k :: int
    using round_diff_minimal [of x k] by (simp add: abs_minus_commute)
  ultimately show ?thesis unfolding r by blast
qed

lemma stats_loaded:
  "runs \<noteq> [] \<Longrightarrow>
   stats (loadAnalytics (Some u) \<lparr>data = Some runs, error = None\<rparr> st) =
     \<lparr>totalRuns = length runs, totalCost = totalCost_of runs,
      avgLatency = Math_round (avgLatency_of runs),
      successRate = Math_round (successRate_of runs),
      modelBreakdown = modelBreakdown_of runs\<rparr>"
  by (simp add: loadAnalytics_def)

lemma avgLatency_of_mean:
  assumes "runs \<noteq> []"
  shows "avgLatency_of runs =
     Num ((\<Sum>r\<leftarrow>runs. of_int (case latency_ms r of None \<Rightarrow> 0 | Some l \<Rightarrow> l))
            / of_nat (length runs))"
proof -
  have "fold (\<lambda>run sum. sum + column_or_0 (latency_ms run)) runs 0 =
      (\<Sum>r\<leftarrow>runs. case latency_ms r of None \<Rightarrow> 0 | Some l \<Rightarrow> l)"
    by (simp add: fold_plus column_or_0_eq)
  then show ?thesis
    using assms
    by (simp add: avgLatency_of_def js_divide_def of_int_sum_list_map
        option.case_distrib [of of_int])
qed

text \<open>
  C1: when the query answers with at least one row, the average latency that
  \<^verbatim>\<open>loadAnalytics\<close> stores is the arithmetic mean of the rows' \<^verbatim>\<open>latency_ms\<close>, a missing
  latency counting as \<open>0\<close>, rounded to the nearest integer: it is the number
  \<open>\<lfloor>mean + 1/2\<rfloor>\<close>, and no integer is closer to the mean.
\<close>

theorem avg_latency_is_rounded_mean:
  assumes "runs \<noteq> []"
  shows "avgLatency (stats (loadAnalytics (Some u) \<lparr>data = Some runs, error = None\<rparr> st)) =
           Num (of_int
             \<lfloor>(\<Sum>r\<leftarrow>runs. of_int (case latency_ms r of None \<Rightarrow> 0 | Some l \<Rightarrow> l))
                / of_nat (length runs) + 1 / 2 :: rat\<rfloor>)
       \<and> (\<forall>k::int.
            \<bar>of_int
               \<lfloor>(\<Sum>r\<leftarrow>runs. of_int (case latency_ms r of None \<Rightarrow> 0 | Some l \<Rightarrow> l))
                  / of_nat (length runs) + 1 / 2 :: rat\<rfloor>
               - (\<Sum>r\<leftarrow>runs. of_int (case latency_ms r of None \<Rightarrow> 0 | Some l \<Rightarrow> l))
                   / of_nat (length runs)\<bar>
            \<le> \<bar>of_int k - (\<Sum>r\<leftarrow>runs. of_int (case latency_ms r of None \<Rightarrow> 0 | Some l \<Rightarrow> l))
                   / of_nat (length runs) :: rat\<bar>)"
proof -
  let ?mean = "(\<Sum>r\<leftarrow>runs. of_int (case latency_ms r of None \<Rightarrow> 0 | Some l \<Rightarrow> l))
                 / of_nat (length runs) :: rat"
  have a: "avgLatency (stats (loadAnalytics (Some u) \<lparr>data = Some runs, error = None\<rparr> st)) =
      Num (of_int \<lfloor>?mean + 1 / 2\<rfloor>)"
    using assms by (simp add: stats_loaded avgLatency_of_mean)
  show ?thesis
    unfolding a using floor_half_nearest [of ?mean] by simp
qed

theorem avg_latency_is_rounded_mean_witness:
  "example_rows \<noteq> [] \<and>
   avgLatency (stats (loadAnalytics (Some example_user)
      \<lparr>data = Some example_rows, error = None\<rparr> initial_page)) = Num 200 \<and>
   avgLatency (stats (loadAnalytics (Some example_user)
      \<lparr>data = Some [example_run\<lparr>latency_ms := Some 1\<rparr>, example_run\<lparr>latency_ms := None\<rparr>],
       error = None\<rparr> initial_page)) = Num 1"
proof -
  have ne: "example_rows \<noteq> []" by (simp add: example_rows_def)
  have ne2: "[example_run\<lparr>latency_ms := Some 1\<rparr>, example_run\<lparr>latency_ms := None\<rparr>] \<noteq> []"
    by simp
  have "avgLatency (stats (loadAnalytics (Some example_user)
      \<lparr>data = Some example_rows, error = None\<rparr> initial_page)) =
      Num (of_int
        \<lfloor>(\<Sum>r\<leftarrow>example_rows. of_int (case latency_ms r of None \<Rightarrow> 0 | Some l \<Rightarrow> l))
              / of_nat (length example_rows) + 1 / 2 :: rat\<rfloor>)"
    using avg_latency_is_rounded_mean [OF ne, of example_user initial_page] by (rule conjunct1)
  also have "\<dots> = Num 200"
    by (simp add: example_rows_def example_run_def floor_eq_iff)
  finally have a: "avgLatency (stats (loadAnalytics (Some example_user)
      \<lparr>data = Some example_rows, error = None\<rparr> initial_page)) = Num 200" .
  let ?two = "[example_run\<lparr>latency_ms := Some 1\<rparr>, example_run\<lparr>latency_ms := None\<rparr>]"
  have "avgLatency (stats (loadAnalytics (Some example_user)
      \<lparr>data = Some ?two, error = None\<rparr> initial_page)) =
      Num (of_int
        \<lfloor>(\<Sum>r\<leftarrow>?two. of_int (case latency_ms r of None \<Rightarrow> 0 | Some l \<Rightarrow> l))
              / of_nat (length ?two) + 1 / 2 :: rat\<rfloor>)"
    using avg_latency_is_rounded_mean [OF ne2, of example_user initial_page] by (rule conjunct1)
  also have "\<dots> = Num 1"
    by (simp add: example_run_def floor_eq_iff)
  finally have b: "avgLatency (stats (loadAnalytics (Some example_user)
      \<lparr>data = Some ?two, error = None\<rparr> initial_page)) = Num 1" .
  from ne a b show ?thesis by simp
qed

lemma successRate_of_share:
  assumes "runs \<noteq> []"
  shows "successRate_of runs =
     Num (of_nat (length (filter (\<lambda>r. status r = Some ''completed'') runs))
            / of_nat (length runs) * 100)"
  using assms by (simp add: successRate_of_def js_divide_def)

lemma share_range:
  assumes "runs \<noteq> []"
  shows "0 \<le> (of_nat (length (filter P runs)) :: rat) / of_nat (length runs) * 100 \<and>
         (of_nat (length (filter P runs)) :: rat) / of_nat (length runs) * 100 \<le> 100"
proof -
  let ?c = "length (filter P runs)"
  have n: "0 < length runs" using assms by simp
  have "?c \<le> length runs" by (rule length_filter_le)
  then have "(of_nat ?c :: rat) \<le> of_nat (length runs)" by (simp only: of_nat_le_iff)
  then have "(of_nat ?c :: rat) / of_nat (length runs) \<le> 1" using n by (simp add: divide_le_eq)
  then have "(of_nat ?c :: rat) / of_nat (length runs) * 100 \<le> 1 * 100"
    by (rule mult_right_mono) simp
  moreover have "0 \<le> (of_nat ?c :: rat) / of_nat (length runs) * 100" by simp
  ultimately show ?thesis by (simp only: mult_1)
qed

text \<open>
  C2: when the query answers with at least one row, the success rate that \<^verbatim>\<open>loadAnalytics\<close>
  stores is the number of rows whose status is exactly \<^verbatim>\<open>completed\<close>, divided by the number
  of rows, times 100, rounded to the nearest integer (it is an integer that differs from
  that number by at most a half, and no integer is closer); and it lies between 0 and 100.
\<close>

theorem success_rate_is_rounded_share:
  assumes "runs \<noteq> []"
  shows "\<exists>rate::int.
       successRate (stats (loadAnalytics (Some u) \<lparr>data = Some runs, error = None\<rparr> st))
         = Num (of_int rate)
       \<and> \<bar>of_int rate
            - of_nat (length (filter (\<lambda>r. status r = Some ''completed'') runs))
                / of_nat (length runs) * 100 :: rat\<bar> \<le> 1 / 2
       \<and> (\<forall>k::int.
            \<bar>of_int rate
               - of_nat (length (filter (\<lambda>r. status r = Some ''completed'') runs))
                   / of_nat (length runs) * 100\<bar>
            \<le> \<bar>of_int k - of_nat (length (filter (\<lambda>r. status r = Some ''completed'') runs))
                   / of_nat (length runs) * 100 :: rat\<bar>)
       \<and> 0 \<le> rate \<and> rate \<le> 100"
proof -
  let ?x = "of_nat (length (filter (\<lambda>r. status r = Some ''completed'') runs))
              / of_nat (length runs) * 100 :: rat"
  have a: "successRate (stats (loadAnalytics (Some u) \<lparr>data = Some runs, error = None\<rparr> st)) =
      Num (of_int \<lfloor>?x + 1 / 2\<rfloor>)"
    using assms by (simp add: stats_loaded successRate_of_share)
  from share_range [OF assms] have r: "0 \<le> ?x" "?x \<le> 100" by simp_all
  have lo: "0 \<le> \<lfloor>?x + 1 / 2\<rfloor>" using r(1) by simp
  have hi: "\<lfloor>?x + 1 / 2\<rfloor> \<le> 100" using r(2) by (simp add: floor_le_iff)
  from a floor_half_nearest [of ?x] lo hi show ?thesis by blast
qed

theorem success_rate_is_rounded_share_witness:
  "example_rows \<noteq> [] \<and>
   successRate (stats (loadAnalytics (Some example_user)
      \<lparr>data = Some example_rows, error = None\<rparr> initial_page)) = Num 67 \<and>
   (0::int) \<le> 67 \<and> (67::int) \<le> 100"
proof -
  have ne: "example_rows \<noteq> []" by (simp add: example_rows_def)
  have x: "(of_nat (length (filter (\<lambda>r. status r = Some ''completed'') example_rows))
                / of_nat (length example_rows) * 100 :: rat) = 200 / 3"
    by (simp add: example_rows_def example_run_def)
  from success_rate_is_rounded_share [OF ne, of example_user initial_page]
  obtain rate :: int where
    v: "successRate (stats (loadAnalytics (Some example_user)
          \<lparr>data = Some example_rows, error = None\<rparr> initial_page)) = Num (of_int rate)"
    and "\<bar>of_int rate
            - of_nat (length (filter (\<lambda>r. status r = Some ''completed'') example_rows))
                / of_nat (length example_rows) * 100 :: rat\<bar> \<le> 1 / 2"
    by blast
  then have near: "\<bar>of_int rate - 200 / 3 :: rat\<bar> \<le> 1 / 2" by (simp only: x)
  have "rate = 67"
  proof -
    from near have "(66 :: rat) < of_int rate" and "(of_int rate :: rat) < 68" by linarith+
    then have "66 < rate" and "rate < 68" by simp_all
    then show ?thesis by simp
  qed
  with v ne show ?thesis by simp
qed

subsection \<open>An answer with no row\<close>






subsection \<open>The breakdown by model\<close>

lemma modelCounts_fold: "modelCounts runs = fold count_step (map model runs) []"
  by (simp add: modelCounts_def fold_map comp_def count_step_def [abs_def])

lemma proto_key: "map_of Object_prototype m = None \<Longrightarrow> m \<noteq> ''__proto__''"
  by (auto simp: Object_prototype_def)

lemma count_step_plain:
  assumes "map_of Object_prototype m = None" and "holds_counts ms acc"
  shows "count_step m acc = AList.update m (Num (of_nat (count_list ms m) + 1)) acc"
proof -
  have key: "m \<noteq> ''__proto__''" using assms(1) by (rule proto_key)
  have acc: "map_of acc m =
      (if count_list ms m = 0 then None else Some (Num (of_nat (count_list ms m))))"
    using assms(2) by (simp add: holds_counts_def)
  show ?thesis
  proof (cases "count_list ms m = 0")
    case True
    with acc assms(1) have "get_property acc m = Undefined" by (simp add: get_property_def)
    then show ?thesis using True key by (simp add: count_step_def set_property_def or_0_def)
  next
    case False
    with acc have "get_property acc m = Num (of_nat (count_list ms m))"
      by (simp add: get_property_def)
    then show ?thesis using False key by (simp add: count_step_def set_property_def or_0_def)
  qed
qed

lemma holds_counts_step:
  assumes "map_of Object_prototype m = None" and "holds_counts ms acc"
  shows "holds_counts (ms @ [m]) (count_step m acc)"
  unfolding count_step_plain [OF assms]
  using assms(2) by (auto simp: holds_counts_def distinct_update update_conv' add.commute)

lemma holds_counts_fold:
  assumes "list_all (\<lambda>m. map_of Object_prototype m = None) xs" and "holds_counts ms acc"
  shows "holds_counts (ms @ xs) (fold count_step xs acc)"
  using assms
proof (induction xs arbitrary: ms acc)
  case Nil
  then show ?case by simp
next
  case (Cons x xs)
  from Cons.prems have "holds_counts (ms @ [x]) (count_step x acc)"
    by (simp add: holds_counts_step)
  with Cons.prems(1) have "holds_counts ((ms @ [x]) @ xs) (fold count_step xs (count_step x acc))"
    by (intro Cons.IH) simp_all
  then show ?case by simp
qed

lemma holds_counts_modelCounts:
  assumes "prototype_free runs"
  shows "holds_counts (map model runs) (modelCounts runs)"
proof -
  have "holds_counts [] []" by (simp add: holds_counts_def)
  moreover have "list_all (\<lambda>m. map_of Object_prototype m = None) (map model runs)"
    using assms by (simp add: prototype_free_def list_all_iff)
  ultimately have "holds_counts ([] @ map model runs) (fold count_step (map model runs) [])"
    by (rule holds_counts_fold [rotated])
  then show ?thesis by (simp add: modelCounts_fold)
qed

lemma set_Object_entries: "set (Object_entries acc) = set acc"
  by (auto simp: Object_entries_def)

lemma distinct_Object_entries: "distinct (map fst (Object_entries acc)) = distinct (map fst acc)"
proof -
  have "distinct (Object_entries acc) = distinct acc"
    by (induction acc) (auto simp: Object_entries_def)
  then show ?thesis by (simp add: distinct_map set_Object_entries)
qed

lemma sum_list_percent:
  "(\<Sum>x\<leftarrow>xs. f x / n * 100 :: rat) = (\<Sum>x\<leftarrow>xs. f x) / n * 100"
  by (induction xs) (simp_all add: add_divide_distrib distrib_right)

lemma count_list_map_model:
  "count_list (map model runs) k = length (filter (\<lambda>r. model r = k) runs)"
  by (induction runs) simp_all

lemma entries_of_plain_models:
  assumes "prototype_free runs"
  shows "distinct (map fst (Object_entries (modelCounts runs)))"
    and "set (map fst (Object_entries (modelCounts runs))) = set (map model runs)"
    and "Object_entries (modelCounts runs) =
           map (\<lambda>k. (k, Num (of_nat (length (filter (\<lambda>r. model r = k) runs)))))
             (map fst (Object_entries (modelCounts runs)))"
proof -
  let ?acc = "modelCounts runs" and ?ms = "map model runs"
  from holds_counts_modelCounts [OF assms]
  have d: "distinct (map fst ?acc)"
    and m: "\<And>k. map_of ?acc k =
        (if count_list ?ms k = 0 then None else Some (Num (of_nat (count_list ?ms k))))"
    by (simp_all add: holds_counts_def)
  show "distinct (map fst (Object_entries ?acc))"
    using d by (simp add: distinct_Object_entries)
  have "fst ` set ?acc = dom (map_of ?acc)" by (simp add: dom_map_of_conv_image_fst)
  also have "\<dots> = {k. count_list ?ms k \<noteq> 0}" by (auto simp: m dom_def)
  also have "\<dots> = set ?ms" by (auto simp: count_list_0_iff)
  finally show "set (map fst (Object_entries ?acc)) = set ?ms"
    by (simp add: set_Object_entries)
  have v: "snd kv = Num (of_nat (length (filter (\<lambda>r. model r = fst kv) runs)))"
    if "kv \<in> set (Object_entries ?acc)" for kv
  proof -
    from that have "(fst kv, snd kv) \<in> set ?acc" by (simp add: set_Object_entries)
    with d have "map_of ?acc (fst kv) = Some (snd kv)" by (rule map_of_is_SomeI)
    then show ?thesis by (simp add: m count_list_map_model split: if_splits)
  qed
  have "map (\<lambda>k. (k, Num (of_nat (length (filter (\<lambda>r. model r = k) runs)))))
        (map fst (Object_entries ?acc)) =
      map (\<lambda>kv. (fst kv, Num (of_nat (length (filter (\<lambda>r. model r = fst kv) runs)))))
        (Object_entries ?acc)"
    by (simp add: comp_def)
  also have "\<dots> = map (\<lambda>kv. kv) (Object_entries ?acc)"
    by (rule map_cong) (simp_all add: v [symmetric])
  finally show "Object_entries ?acc =
      map (\<lambda>k. (k, Num (of_nat (length (filter (\<lambda>r. model r = k) runs)))))
        (map fst (Object_entries ?acc))"
    by simp
qed

text \<open>
  For rows none of whose model identifiers names a property of \<^verbatim>\<open>Object.prototype\<close>, the
  breakdown has exactly one entry per distinct model of the rows; the count of an entry is
  the number of rows with its model and its percentage is that count divided by the number
  of rows, times 100, unrounded; the counts add up to the number of rows and, when there is
  a row, the percentages add up to 100.
\<close>

lemma breakdown_of_plain_models:
  assumes "prototype_free runs"
  shows "distinct (map item_model (modelBreakdown_of runs)) \<and>
         set (map item_model (modelBreakdown_of runs)) = set (map model runs) \<and>
         (\<forall>e \<in> set (modelBreakdown_of runs).
            item_count e = Num (of_nat (length (filter (\<lambda>r. model r = item_model e) runs))) \<and>
            item_percentage e =
              Num (of_nat (length (filter (\<lambda>r. model r = item_model e) runs))
                     / of_nat (length runs) * 100)) \<and>
         (\<exists>cs. map item_count (modelBreakdown_of runs) = map Num cs \<and>
               sum_list cs = of_nat (length runs)) \<and>
         (runs \<noteq> [] \<longrightarrow>
            (\<exists>ps. map item_percentage (modelBreakdown_of runs) = map Num ps \<and>
                  sum_list ps = 100))"
proof -
  let ?ks = "map fst (Object_entries (modelCounts runs))"
  let ?c = "\<lambda>k. length (filter (\<lambda>r. model r = k) runs)"
  note e = entries_of_plain_models [OF assms]
  have ne: "runs \<noteq> []" if "k \<in> set ?ks" for k
    using that unfolding e(2) by auto
  have pc: "percent_of (Num (of_nat (?c k))) (length runs) =
      Num (of_nat (?c k) / of_nat (length runs) * 100)" if "k \<in> set ?ks" for k
    using ne [OF that] by (simp add: js_divide_def)
  have "modelBreakdown_of runs =
      map (\<lambda>k. \<lparr>item_model = k, item_count = Num (of_nat (?c k)),
                  item_percentage = percent_of (Num (of_nat (?c k))) (length runs)\<rparr>) ?ks"
    unfolding modelBreakdown_of_def by (subst e(3)) (simp add: comp_def)
  also have "\<dots> =
      map (\<lambda>k. \<lparr>item_model = k, item_count = Num (of_nat (?c k)),
                  item_percentage = Num (of_nat (?c k) / of_nat (length runs) * 100)\<rparr>) ?ks"
  proof (rule map_cong [OF refl])
    fix k
    assume "k \<in> set ?ks"
    from pc [OF this]
    show "\<lparr>item_model = k, item_count = Num (of_nat (?c k)),
           item_percentage = percent_of (Num (of_nat (?c k))) (length runs)\<rparr> =
          \<lparr>item_model = k, item_count = Num (of_nat (?c k)),
           item_percentage = Num (of_nat (?c k) / of_nat (length runs) * 100)\<rparr>"
      by (simp only:)
  qed
  finally have bd: "modelBreakdown_of runs =
      map (\<lambda>k. \<lparr>item_model = k, item_count = Num (of_nat (?c k)),
                  item_percentage = Num (of_nat (?c k) / of_nat (length runs) * 100)\<rparr>) ?ks" .
  have models: "map item_model (modelBreakdown_of runs) = ?ks"
    unfolding bd by (simp add: comp_def)
  have total: "(\<Sum>k\<leftarrow>?ks. (of_nat (?c k) :: rat)) = of_nat (length runs)"
  proof -
    have "(\<Sum>k\<leftarrow>?ks. (of_nat (?c k) :: rat)) = (\<Sum>k\<in>set ?ks. of_nat (?c k))"
      using e(1) by (rule sum_list_distinct_conv_sum_set)
    also have "\<dots> = of_nat (\<Sum>k\<in>set (map model runs). count_list (map model runs) k)"
      unfolding e(2) by (simp add: count_list_map_model)
    also have "(\<Sum>k\<in>set (map model runs). count_list (map model runs) k) =
        length (map model runs)"
      by (rule sum_count_set) simp_all
    finally show ?thesis by simp
  qed
  have counts: "map item_count (modelBreakdown_of runs) = map Num (map (\<lambda>k. of_nat (?c k)) ?ks)"
    unfolding bd by (simp add: comp_def)
  have percentages: "map item_percentage (modelBreakdown_of runs) =
      map Num (map (\<lambda>k. of_nat (?c k) / of_nat (length runs) * 100) ?ks)"
    unfolding bd by (simp add: comp_def)
  have hundred: "(\<Sum>k\<leftarrow>?ks. (of_nat (?c k) :: rat) / of_nat (length runs) * 100) = 100"
    if "runs \<noteq> []"
  proof -
    have "(\<Sum>k\<leftarrow>?ks. (of_nat (?c k) :: rat) / of_nat (length runs) * 100) =
        (\<Sum>k\<leftarrow>?ks. (of_nat (?c k) :: rat)) / of_nat (length runs) * 100"
      by (rule sum_list_percent)
    also have "\<dots> = of_nat (length runs) / of_nat (length runs) * 100"
      by (simp only: total)
    also have "\<dots> = 100" using that by simp
    finally show ?thesis .
  qed
  have each: "\<forall>e \<in> set (modelBreakdown_of runs).
      item_count e = Num (of_nat (?c (item_model e))) \<and>
      item_percentage e = Num (of_nat (?c (item_model e)) / of_nat (length runs) * 100)"
    unfolding bd by auto
  from e(1,2) models each counts total percentages hundred show ?thesis
    by (metis (no_types, lifting))
qed


text \<open>
  C3: the breakdown would have, for every set of rows, one entry per model with the number
  of its rows as count. The counts are kept in a plain object, so a model identifier that
  names a property of \<^verbatim>\<open>Object.prototype\<close> meets the inherited value instead of a missing
  count. For one row whose model is \<^verbatim>\<open>constructor\<close> the entry's count is a text and its
  percentage is \<^verbatim>\<open>NaN\<close>; for one row whose model is \<^verbatim>\<open>__proto__\<close> the breakdown has no
  entry at all, while \<open>totalRuns\<close> is 1.
\<close>

theorem breakdown_of_prototype_names:
  "modelBreakdown (stats (loadAnalytics (Some example_user)
      \<lparr>data = Some [example_run\<lparr>model := ''constructor''\<rparr>], error = None\<rparr> initial_page))
     = [\<lparr>item_model = ''constructor'',
         item_count = Str ''function Object() { [native code] }1'',
         item_percentage = NaN\<rparr>] \<and>
   modelBreakdown (stats (loadAnalytics (Some example_user)
      \<lparr>data = Some [example_run\<lparr>model := ''__proto__''\<rparr>], error = None\<rparr> initial_page))
     = [] \<and>
   totalRuns (stats (loadAnalytics (Some example_user)
      \<lparr>data = Some [example_run\<lparr>model := ''__proto__''\<rparr>], error = None\<rparr> initial_page))
     = 1"
  by (simp add: stats_loaded modelBreakdown_of_def modelCounts_def get_property_def
      set_property_def or_0_def Object_prototype_def Object_entries_def is_array_index_def
      example_run_def)

end
